theory Spec2Isabelle
  imports Main "HOL-Library.Word"
begin

section \<open>Coroutine support of asio: impl/await.hpp\<close>

text \<open>
  The header bridges completion handlers and C++ coroutines. Three kinds of object carry
  all of its state: the promise \<open>awaiter\<close> of the coroutine at the top of a spawned
  chain, the promise \<open>awaitee\<close> of every awaited coroutine, and the handler objects
  (\<open>awaiter_task\<close> and what derives from it) that hold a counted reference to an
  \<open>awaiter\<close>. Each member function of the header is one definition below, named
  after it and prefixed by its class where two classes share a name. Objects reached
  through pointers live in a store; everything the header hands to the executor
  (\<open>post\<close>, \<open>dispatch\<close>) and every coroutine frame it destroys is appended
  to a trace.
\<close>

subsection \<open>Values shared by all classes\<close>

type_synonym addr = nat
type_synonym executor = nat

text \<open>
  Modelled from the spec: \<open>asio::error_code\<close> is declared in a header that is not
  part of the source. The handlers only convert it to \<open>bool\<close>, which the spec reads
  as "non-zero", and wrap it in a \<open>system_error\<close>.
\<close>

type_synonym error_code = int

definition error_code_bool :: "error_code \<Rightarrow> bool" where
  "error_code_bool ec = (ec \<noteq> 0)"

text \<open>
  An exception object is either the \<open>system_error\<close> the handlers build from an
  \<open>error_code\<close> or any other exception, identified by a number. An
  \<open>std::exception_ptr\<close> is null (\<open>None\<close>) or refers to one.
\<close>

datatype exn = System_error error_code | Exception nat

type_synonym exception_ptr = "exn option"

text \<open>
  A \<open>coroutine_handle\<close> names a coroutine frame. Frames with an \<open>awaiter\<close>
  promise and frames with an \<open>awaitee\<close> promise are kept apart.
\<close>

datatype handle = Awaiter_frame addr | Awaitee_frame addr

subsection \<open>class awaiter (lines 36-92)\<close>

text \<open>
  Isabelle reserves names that end in an underscore, so the data members are written
  without it (\<open>ref_count\<close> for \<open>ref_count_\<close>); \<open>ready_\<close> is \<open>ready_flag\<close>, beside
  the member function \<open>ready\<close>. \<open>ref_count_\<close> is a \<open>std::size_t\<close>, taken here as
  64 bits wide: \<open>++\<close> and \<open>--\<close> wrap around.
\<close>

record awaiter =
  ref_count :: "64 word"
  pending_exception :: exception_ptr

definition awaiter_init :: awaiter where
  "awaiter_init = \<lparr>ref_count = 0, pending_exception = None\<rparr>"

text \<open>\<open>unhandled_exception\<close>: the argument is what \<open>std::current_exception()\<close> returns.\<close>

definition awaiter_unhandled_exception :: "exn \<Rightarrow> awaiter \<Rightarrow> awaiter" where
  "awaiter_unhandled_exception e a = a\<lparr>pending_exception := Some e\<rparr>"

definition awaiter_set_exception :: "exception_ptr \<Rightarrow> awaiter \<Rightarrow> awaiter" where
  "awaiter_set_exception ex a = a\<lparr>pending_exception := ex\<rparr>"

definition add_ref :: "awaiter \<Rightarrow> awaiter" where
  "add_ref a = a\<lparr>ref_count := ref_count a + 1\<rparr>"

text \<open>
  \<open>release\<close> returns the promise after the decrement and whether
  \<open>coroutine_handle<awaiter>::from_promise(*this).destroy()\<close> is called.
\<close>

definition release :: "awaiter \<Rightarrow> awaiter \<times> bool" where
  "release a =
     (let a' = a\<lparr>ref_count := ref_count a - 1\<rparr>
      in (a', ref_count a' = 0))"

text \<open>
  \<open>rethrow_exception\<close> returns the promise and the exception thrown, \<open>None\<close> when
  the call returns normally.
\<close>

definition awaiter_rethrow_exception :: "awaiter \<Rightarrow> awaiter \<times> exception_ptr" where
  "awaiter_rethrow_exception a =
     (case pending_exception a of
        Some e \<Rightarrow> (a\<lparr>pending_exception := None\<rparr>, Some e)
      | None \<Rightarrow> (a, None))"

subsection \<open>class awaitee_base and awaitee<T> (lines 106-240)\<close>

text \<open>
  \<open>buf\<close> (\<open>buf_\<close>) is raw storage for one \<open>T\<close>: nothing has been constructed in it, or it
  holds a value, or the value it held has been moved out.
\<close>

datatype 'a slot = Uninitialised | Holds 'a | Moved_from

record awaitee_base =
  awaitee_awaiter :: "addr option"
  caller :: "handle option"
  awaitee_pending_exception :: exception_ptr
  ready_flag :: bool

record 'a awaitee = awaitee_base +
  buf :: "'a slot"
  initialised :: bool

text \<open>
  \<open>awaitee<void>\<close> adds nothing to the base; its \<open>return_void\<close> does nothing. The
  members of the base class are defined on the record scheme, so they apply to both.
\<close>

definition awaitee_init :: "'a awaitee" where
  "awaitee_init =
     \<lparr>awaitee_awaiter = None, caller = None, awaitee_pending_exception = None,
      ready_flag = False, buf = Uninitialised, initialised = False\<rparr>"

definition awaitee_unhandled_exception ::
  "exn \<Rightarrow> 'z awaitee_base_scheme \<Rightarrow> 'z awaitee_base_scheme" where
  "awaitee_unhandled_exception e c =
     c\<lparr>awaitee_pending_exception := Some e, ready_flag := True\<rparr>"

definition awaitee_set_exception ::
  "exception_ptr \<Rightarrow> 'z awaitee_base_scheme \<Rightarrow> 'z awaitee_base_scheme" where
  "awaitee_set_exception e c =
     c\<lparr>awaitee_pending_exception := e, ready_flag := True\<rparr>"

definition ready :: "'z awaitee_base_scheme \<Rightarrow> bool" where
  "ready c = ready_flag c"

definition set_caller ::
  "handle option \<Rightarrow> 'z awaitee_base_scheme \<Rightarrow> 'z awaitee_base_scheme" where
  "set_caller h c = c\<lparr>caller := h\<rparr>"

definition awaitee_rethrow_exception ::
  "'z awaitee_base_scheme \<Rightarrow> 'z awaitee_base_scheme \<times> exception_ptr" where
  "awaitee_rethrow_exception c =
     (case awaitee_pending_exception c of
        Some e \<Rightarrow> (c\<lparr>awaitee_pending_exception := None\<rparr>, Some e)
      | None \<Rightarrow> (c, None))"

definition return_value :: "'a \<Rightarrow> 'a awaitee \<Rightarrow> 'a awaitee" where
  "return_value u c = c\<lparr>buf := Holds u, initialised := True\<rparr>"

definition return_void :: "'z awaitee_base_scheme \<Rightarrow> 'z awaitee_base_scheme" where
  "return_void c = c"

text \<open>
  What a call that yields a \<open>T\<close> does: it returns a value, or throws, or the source
  leaves the outcome open (a read of storage in which nothing was constructed, or of a
  moved-from object).
\<close>

datatype 'a completion = Returns 'a | Throws exn | Undetermined

definition awaitee_value :: "'a awaitee \<Rightarrow> 'a awaitee \<times> 'a completion" where
  "awaitee_value c =
     (case awaitee_rethrow_exception c of
        (c', Some e) \<Rightarrow> (c', Throws e)
      | (c', None) \<Rightarrow>
          (case buf c' of
             Holds v \<Rightarrow> (c'\<lparr>buf := Moved_from\<rparr>, Returns v)
           | Uninitialised \<Rightarrow> (c', Undetermined)
           | Moved_from \<Rightarrow> (c', Undetermined)))"

definition await_resume :: "'a awaitee \<Rightarrow> 'a awaitee \<times> 'a completion" where
  "await_resume c = awaitee_value (set_caller None c)"

subsection \<open>The store\<close>

text \<open>
  The only coroutine of the header whose promise is an \<open>awaiter\<close> is
  \<open>spawn_entry_point\<close>, so a frame with that promise also holds the local \<open>done\<close>
  and the point at which the coroutine is suspended: in
  \<open>co_await make_await_context\<close>, in the \<open>co_await\<close> of the awaitable that the user
  function returned (whose \<open>awaitee\<close> is at the given address), or at its final
  suspension.
\<close>

datatype sep_point = Sep_context_await | Sep_function_await addr | Sep_final_suspend

record awaiter_frame =
  promise :: awaiter
  point :: sep_point
  done_flag :: bool

record destroy_awaiter =
  destroy_ex :: executor
  destroy_awaiter_ptr :: "addr option"

record awaiter_task =
  task_ex :: executor
  task_awaiter :: "addr option"

record await_handler_base = awaiter_task +
  handler_awaitee :: "addr option"

text \<open>
  What the header hands to the executor and which frames it destroys, in order:
  \<open>(post)(h)\<close> for a \<open>destroy_awaiter\<close> or a \<open>spawn_handler\<close>; \<open>(dispatch)(ex, g)\<close>
  where \<open>g\<close> calls the final handler with an exception pointer and a value; and
  \<open>coroutine_handle::destroy()\<close>.
\<close>

datatype posted = Post_destroy_awaiter destroy_awaiter | Post_spawn_handler awaiter_task

datatype 'a event =
    Posted posted
  | Dispatched executor exception_ptr 'a
  | Destroyed handle

text \<open>
  \<open>undetermined\<close> is set when the source dereferences a null pointer or a pointer to a
  destroyed frame, reads storage that holds no value, or resumes a coroutine at its final
  suspension: from then on the model says nothing about the run. Frames are allocated at
  \<open>next_addr\<close>. Every \<open>awaitee\<close> is stored with the members of \<open>awaitee<T>\<close>; the
  handlers for \<open>awaitee<void>\<close> never touch \<open>buf\<close> and \<open>initialised\<close>.
\<close>

record 'a world =
  awaiters :: "addr \<rightharpoonup> awaiter_frame"
  awaitees :: "addr \<rightharpoonup> 'a awaitee"
  next_addr :: addr
  trace :: "'a event list"
  undetermined :: bool

definition world_init :: "'a world" where
  "world_init =
     \<lparr>awaiters = Map.empty, awaitees = Map.empty, next_addr = 0, trace = [],
      undetermined = False\<rparr>"

definition fault :: "'a world \<Rightarrow> 'a world" where
  "fault s = s\<lparr>undetermined := True\<rparr>"

definition emit :: "'a event \<Rightarrow> 'a world \<Rightarrow> 'a world" where
  "emit ev s = s\<lparr>trace := trace s @ [ev]\<rparr>"

subsection \<open>awaitable<T> (lines 629-665)\<close>

text \<open>An \<open>awaitable<T>\<close> is its one member \<open>awaitee_\<close>, an owning pointer.\<close>

definition awaitable_dtor :: "addr option \<Rightarrow> 'a world \<Rightarrow> 'a world" where
  "awaitable_dtor awaitee_ptr s =
     (case awaitee_ptr of
        None \<Rightarrow> s
      | Some q \<Rightarrow>
          (case awaitees s q of
             None \<Rightarrow> fault s
           | Some c \<Rightarrow>
               emit (Destroyed (Awaitee_frame q)) (s\<lparr>awaitees := (awaitees s)(q := None)\<rparr>)))"

definition awaitable_await_ready :: "addr \<Rightarrow> 'a world \<Rightarrow> bool option" where
  "awaitable_await_ready q s = map_option ready (awaitees s q)"

definition awaitable_await_suspend :: "handle \<Rightarrow> addr \<Rightarrow> 'a world \<Rightarrow> 'a world" where
  "awaitable_await_suspend h q s =
     (case awaitees s q of
        None \<Rightarrow> fault s
      | Some c \<Rightarrow> s\<lparr>awaitees := (awaitees s)(q \<mapsto> set_caller (Some h) c)\<rparr>)"

definition awaitable_await_resume :: "addr \<Rightarrow> 'a world \<Rightarrow> 'a completion \<times> 'a world" where
  "awaitable_await_resume q s =
     (case awaitees s q of
        None \<Rightarrow> (Undetermined, fault s)
      | Some c \<Rightarrow>
          (case await_resume c of
             (c', r) \<Rightarrow> (r, s\<lparr>awaitees := (awaitees s)(q \<mapsto> c')\<rparr>)))"

text \<open>
  \<open>awaitee_base::wake_caller\<close> through a pointer. What the resumed coroutine does is
  the parameter \<open>resume\<close>; it cannot throw into the caller, because both promise
  types store an exception that leaves the coroutine body.
\<close>

definition wake_caller ::
  "(handle \<Rightarrow> 'a world \<Rightarrow> 'a world) \<Rightarrow> addr \<Rightarrow> 'a world \<Rightarrow> 'a world" where
  "wake_caller resume q s =
     (case awaitees s q of
        None \<Rightarrow> fault s
      | Some c \<Rightarrow> (case caller c of None \<Rightarrow> s | Some h \<Rightarrow> resume h s))"

subsection \<open>awaiter through a pointer, awaiter_delete, destroy_awaiter (lines 68-104, 267-298)\<close>

text \<open>
  Destroying the frame of \<open>spawn_entry_point\<close> destroys what is alive at its suspension
  point: while it awaits the user function's awaitable, that temporary, and with it the
  frame the awaitable owns.
\<close>

definition destroy_awaiter_frame :: "addr \<Rightarrow> 'a world \<Rightarrow> 'a world" where
  "destroy_awaiter_frame p s =
     (case awaiters s p of
        None \<Rightarrow> fault s
      | Some fr \<Rightarrow>
          (let s' = (case point fr of
                       Sep_function_await q \<Rightarrow> awaitable_dtor (Some q) s
                     | Sep_context_await \<Rightarrow> s
                     | Sep_final_suspend \<Rightarrow> s)
           in emit (Destroyed (Awaiter_frame p)) (s'\<lparr>awaiters := (awaiters s')(p := None)\<rparr>)))"

definition awaiter_add_ref :: "addr \<Rightarrow> 'a world \<Rightarrow> 'a world" where
  "awaiter_add_ref p s =
     (case awaiters s p of
        None \<Rightarrow> fault s
      | Some fr \<Rightarrow> s\<lparr>awaiters := (awaiters s)(p \<mapsto> fr\<lparr>promise := add_ref (promise fr)\<rparr>)\<rparr>)"

definition awaiter_release :: "addr \<Rightarrow> 'a world \<Rightarrow> 'a world" where
  "awaiter_release p s =
     (case awaiters s p of
        None \<Rightarrow> fault s
      | Some fr \<Rightarrow>
          (case release (promise fr) of
             (a', destroy) \<Rightarrow>
               (let s' = s\<lparr>awaiters := (awaiters s)(p \<mapsto> fr\<lparr>promise := a'\<rparr>)\<rparr>
                in if destroy then destroy_awaiter_frame p s' else s')))"

definition awaiter_ptr_rethrow_exception ::
  "addr option \<Rightarrow> 'a world \<Rightarrow> exception_ptr \<times> 'a world" where
  "awaiter_ptr_rethrow_exception ptr s =
     (case ptr of
        None \<Rightarrow> (None, fault s)
      | Some p \<Rightarrow>
          (case awaiters s p of
             None \<Rightarrow> (None, fault s)
           | Some fr \<Rightarrow>
               (case awaiter_rethrow_exception (promise fr) of
                  (a', thrown) \<Rightarrow>
                    (thrown, s\<lparr>awaiters := (awaiters s)(p \<mapsto> fr\<lparr>promise := a'\<rparr>)\<rparr>))))"

text \<open>\<open>awaiter_delete::operator()\<close>, the deleter of \<open>awaiter_ptr\<close>.\<close>

definition awaiter_delete :: "addr option \<Rightarrow> 'a world \<Rightarrow> 'a world" where
  "awaiter_delete a s = (case a of None \<Rightarrow> s | Some p \<Rightarrow> awaiter_release p s)"

text \<open>
  \<open>destroy_awaiter::operator()\<close> moves the member into a temporary \<open>awaiter_ptr\<close>,
  which is destroyed at once. Destroying a \<open>destroy_awaiter\<close> destroys its member.
\<close>

definition destroy_awaiter_call ::
  "destroy_awaiter \<Rightarrow> 'a world \<Rightarrow> destroy_awaiter \<times> 'a world" where
  "destroy_awaiter_call d s =
     (d\<lparr>destroy_awaiter_ptr := None\<rparr>, awaiter_delete (destroy_awaiter_ptr d) s)"

definition destroy_awaiter_dtor :: "destroy_awaiter \<Rightarrow> 'a world \<Rightarrow> 'a world" where
  "destroy_awaiter_dtor d s = awaiter_delete (destroy_awaiter_ptr d) s"

subsection \<open>awaiter_task and spawn_handler (lines 300-345)\<close>

definition awaiter_task_ctor :: "executor \<Rightarrow> addr \<Rightarrow> 'a world \<Rightarrow> awaiter_task \<times> 'a world" where
  "awaiter_task_ctor e a s = (\<lparr>task_ex = e, task_awaiter = Some a\<rparr>, awaiter_add_ref a s)"

text \<open>The move constructor: the new object and what is left of the old one.\<close>

definition awaiter_task_move ::
  "'z awaiter_task_scheme \<Rightarrow> 'z awaiter_task_scheme \<times> 'z awaiter_task_scheme" where
  "awaiter_task_move other = (other, other\<lparr>task_awaiter := None\<rparr>)"

definition awaiter_task_dtor :: "'z awaiter_task_scheme \<Rightarrow> 'a world \<Rightarrow> 'a world" where
  "awaiter_task_dtor t s =
     (case task_awaiter t of
        None \<Rightarrow> s
      | Some p \<Rightarrow>
          emit (Posted (Post_destroy_awaiter
                  \<lparr>destroy_ex = task_ex t, destroy_awaiter_ptr = Some p\<rparr>)) s)"

definition spawn_handler_call ::
  "(handle \<Rightarrow> 'a world \<Rightarrow> 'a world) \<Rightarrow> awaiter_task \<Rightarrow> 'a world \<Rightarrow> awaiter_task \<times> 'a world" where
  "spawn_handler_call resume h s =
     (let ptr = task_awaiter h; h' = h\<lparr>task_awaiter := None\<rparr>
      in case ptr of
           None \<Rightarrow> (h', fault s)
         | Some p \<Rightarrow> (h', awaiter_delete ptr (resume (Awaiter_frame p) s)))"

subsection \<open>await_handler_base and the six await_handler classes (lines 347-481)\<close>

definition await_handler_base_ctor ::
  "executor \<Rightarrow> addr \<Rightarrow> 'a world \<Rightarrow> await_handler_base \<times> 'a world" where
  "await_handler_base_ctor e a s =
     (\<lparr>task_ex = e, task_awaiter = Some a, handler_awaitee = None\<rparr>, awaiter_add_ref a s)"

text \<open>
  \<open>make_dummy_awaitable\<close> is a coroutine that suspends for ever: calling it allocates
  a frame with a fresh promise and returns the awaitable that owns it.
\<close>

definition make_dummy_awaitable :: "'a world \<Rightarrow> addr \<times> 'a world" where
  "make_dummy_awaitable s =
     (let q = next_addr s
      in (q, s\<lparr>awaitees := (awaitees s)(q \<mapsto> awaitee_init), next_addr := Suc q\<rparr>))"

definition make_awaitable ::
  "await_handler_base \<Rightarrow> 'a world \<Rightarrow> await_handler_base \<times> addr \<times> 'a world" where
  "make_awaitable h s =
     (case make_dummy_awaitable s of
        (q, s') \<Rightarrow> (h\<lparr>handler_awaitee := Some q\<rparr>, q, s'))"

text \<open>
  The arguments of the six \<open>operator()\<close>: none, an \<open>error_code\<close>, an
  \<open>exception_ptr\<close>, a value, and an \<open>error_code\<close> or \<open>exception_ptr\<close> with a value.
\<close>

datatype 'a completion_args =
    Args_none
  | Args_ec error_code
  | Args_ex exception_ptr
  | Args_value 'a
  | Args_ec_value error_code 'a
  | Args_ex_value exception_ptr 'a

text \<open>The statement of each \<open>operator()\<close> that writes into the target \<open>awaitee\<close>.\<close>

definition await_handler_write :: "'a completion_args \<Rightarrow> 'a awaitee \<Rightarrow> 'a awaitee" where
  "await_handler_write args c =
     (case args of
        Args_none \<Rightarrow> return_void c
      | Args_ec ec \<Rightarrow>
          if error_code_bool ec then awaitee_set_exception (Some (System_error ec)) c
          else return_void c
      | Args_ex ex \<Rightarrow>
          if ex \<noteq> None then awaitee_set_exception ex c else return_void c
      | Args_value t \<Rightarrow> return_value t c
      | Args_ec_value ec t \<Rightarrow>
          if error_code_bool ec then awaitee_set_exception (Some (System_error ec)) c
          else return_value t c
      | Args_ex_value ex t \<Rightarrow>
          if ex \<noteq> None then awaitee_set_exception ex c else return_value t c)"

definition await_handler_store :: "'a completion_args \<Rightarrow> addr option \<Rightarrow> 'a world \<Rightarrow> 'a world" where
  "await_handler_store args awaitee_ptr s =
     (case awaitee_ptr of
        None \<Rightarrow> fault s
      | Some q \<Rightarrow>
          (case awaitees s q of
             None \<Rightarrow> fault s
           | Some c \<Rightarrow> s\<lparr>awaitees := (awaitees s)(q \<mapsto> await_handler_write args c)\<rparr>))"

definition await_handler_wake ::
  "(handle \<Rightarrow> 'a world \<Rightarrow> 'a world) \<Rightarrow> addr option \<Rightarrow> 'a world \<Rightarrow> 'a world" where
  "await_handler_wake resume awaitee_ptr s =
     (case awaitee_ptr of None \<Rightarrow> fault s | Some q \<Rightarrow> wake_caller resume q s)"

text \<open>
  \<open>operator()\<close>: the handler after the call, the exception the call throws (\<open>None\<close>
  when it returns) and the store. The local \<open>ptr\<close> is destroyed on both ways out.
\<close>

definition await_handler_call ::
  "(handle \<Rightarrow> 'a world \<Rightarrow> 'a world) \<Rightarrow> 'a completion_args \<Rightarrow> await_handler_base \<Rightarrow> 'a world
     \<Rightarrow> await_handler_base \<times> exception_ptr \<times> 'a world" where
  "await_handler_call resume args h s =
     (let ptr = task_awaiter h;
          h' = h\<lparr>task_awaiter := None\<rparr>;
          s1 = await_handler_store args (handler_awaitee h) s;
          s2 = await_handler_wake resume (handler_awaitee h) s1
      in case awaiter_ptr_rethrow_exception ptr s2 of
           (thrown, s3) \<Rightarrow> (h', thrown, awaiter_delete ptr s3))"

subsection \<open>spawn_entry_point for awaitable<T>, and spawn (lines 527-558, 584-606)\<close>

text \<open>
  The overload for \<open>awaitable<void>\<close> (lines 560-582) has no value to deliver and no
  \<open>done\<close> flag; it is left out.
\<close>

text \<open>
  What \<open>spawn_entry_point\<close> is called with. \<open>work_guard\<close> stands for
  \<open>work_guard.get_executor()\<close> and \<open>spawn_ex\<close> for \<open>ex\<close>. \<open>user_function\<close> is
  \<open>std::invoke(f, args..., ctx)\<close> for the context \<open>ctx\<close> made of an executor and the
  address of the \<open>awaiter\<close>: the call throws, or it returns an awaitable, that is the
  address of the \<open>awaitee\<close> it owns. \<open>default_value\<close> is \<open>T()\<close>. The final handler is
  not called by the header but handed to \<open>dispatch\<close>, which is declared elsewhere and
  may run it at once: \<open>dispatch_throws\<close> is the exception that leaves the call of
  \<open>dispatch\<close>, if any.
\<close>

record 'a spawn_args =
  work_guard :: executor
  spawn_ex :: executor
  user_function :: "executor \<Rightarrow> addr \<Rightarrow> 'a world \<Rightarrow> (exn + addr) \<times> 'a world"
  default_value :: 'a
  dispatch_throws :: "executor \<Rightarrow> exception_ptr \<Rightarrow> 'a \<Rightarrow> exception_ptr"

text \<open>
  Calling \<open>spawn_entry_point\<close> allocates the frame and runs it up to its first
  suspension, in \<open>co_await make_await_context<Executor>(ex)\<close>, whose \<open>await_ready\<close>
  is \<open>false\<close>; \<open>get_return_object\<close> gives the caller the address of the promise.
\<close>

definition spawn_entry_point :: "'a world \<Rightarrow> addr \<times> 'a world" where
  "spawn_entry_point s =
     (let p = next_addr s
      in (p, s\<lparr>awaiters := (awaiters s)(p \<mapsto>
                  \<lparr>promise = awaiter_init, point = Sep_context_await, done_flag = False\<rparr>),
               next_addr := Suc p\<rparr>))"

text \<open>\<open>(dispatch)(work_guard.get_executor(), [...] { handler(e, t); })\<close>\<close>

definition sep_dispatch ::
  "'a spawn_args \<Rightarrow> exception_ptr \<Rightarrow> 'a \<Rightarrow> 'a world \<Rightarrow> exception_ptr \<times> 'a world" where
  "sep_dispatch A e t s =
     (dispatch_throws A (work_guard A) e t, emit (Dispatched (work_guard A) e t) s)"

text \<open>\<open>done = true\<close>\<close>

definition sep_set_done :: "addr \<Rightarrow> 'a world \<Rightarrow> 'a world" where
  "sep_set_done p s =
     (case awaiters s p of
        None \<Rightarrow> fault s
      | Some fr \<Rightarrow> s\<lparr>awaiters := (awaiters s)(p \<mapsto> fr\<lparr>done_flag := True\<rparr>)\<rparr>)"

text \<open>
  The \<open>catch (...)\<close> block, entered with the exception \<open>e\<close>: the exception that
  leaves it, if any, and the store.
\<close>

definition sep_catch ::
  "'a spawn_args \<Rightarrow> addr \<Rightarrow> exn \<Rightarrow> 'a world \<Rightarrow> exception_ptr \<times> 'a world" where
  "sep_catch A p e s =
     (case awaiters s p of
        None \<Rightarrow> (None, fault s)
      | Some fr \<Rightarrow>
          if done_flag fr then (Some e, s)
          else sep_dispatch A (Some e) (default_value A) s)"

text \<open>
  The end of the coroutine body: an exception that leaves it goes to
  \<open>awaiter::unhandled_exception\<close>, otherwise \<open>return_void\<close> runs, which does
  nothing; then the coroutine stops at \<open>final_suspend\<close>, which always suspends.
\<close>

definition sep_finish :: "addr \<Rightarrow> exception_ptr \<times> 'a world \<Rightarrow> 'a world" where
  "sep_finish p r =
     (case r of
        (thrown, s) \<Rightarrow>
          (case awaiters s p of
             None \<Rightarrow> fault s
           | Some fr \<Rightarrow>
               s\<lparr>awaiters := (awaiters s)(p \<mapsto>
                    fr\<lparr>promise := (case thrown of
                                      None \<Rightarrow> promise fr
                                    | Some e \<Rightarrow> awaiter_unhandled_exception e (promise fr)),
                       point := Sep_final_suspend\<rparr>)\<rparr>))"

text \<open>
  From \<open>await_resume\<close> of the user function's awaitable to the end: \<open>T t\<close> is
  initialised and the temporary awaitable destroyed, \<open>done\<close> is set and the handler
  dispatched with the value; an exception on the way enters the \<open>catch\<close> block.
\<close>

definition sep_after_await :: "'a spawn_args \<Rightarrow> addr \<Rightarrow> addr \<Rightarrow> 'a world \<Rightarrow> 'a world" where
  "sep_after_await A p q s =
     (case awaitable_await_resume q s of
        (Throws e, s1) \<Rightarrow> sep_finish p (sep_catch A p e (awaitable_dtor (Some q) s1))
      | (Returns t, s1) \<Rightarrow>
          (case sep_dispatch A None t (sep_set_done p (awaitable_dtor (Some q) s1)) of
             (None, s2) \<Rightarrow> sep_finish p (None, s2)
           | (Some e, s2) \<Rightarrow> sep_finish p (sep_catch A p e s2))
      | (Undetermined, s1) \<Rightarrow> fault s1)"

text \<open>
  \<open>coroutine_handle<awaiter>::resume()\<close>: the coroutine runs from the point where it
  is suspended to its next suspension. After \<open>make_await_context\<close> it calls the user
  function and awaits the result: when \<open>await_ready\<close> is true it goes on at once,
  otherwise \<open>await_suspend\<close> registers it as the caller and it suspends.
\<close>

definition spawn_entry_point_resume :: "'a spawn_args \<Rightarrow> addr \<Rightarrow> 'a world \<Rightarrow> 'a world" where
  "spawn_entry_point_resume A p s =
     (case awaiters s p of
        None \<Rightarrow> fault s
      | Some fr \<Rightarrow>
          (case point fr of
             Sep_context_await \<Rightarrow>
               (case user_function A (spawn_ex A) p s of
                  (Inl e, s1) \<Rightarrow> sep_finish p (sep_catch A p e s1)
                | (Inr q, s1) \<Rightarrow>
                    (case awaitable_await_ready q s1 of
                       None \<Rightarrow> fault s1
                     | Some True \<Rightarrow> sep_after_await A p q s1
                     | Some False \<Rightarrow>
                         (let s2 = awaitable_await_suspend (Awaiter_frame p) q s1
                          in case awaiters s2 p of
                               None \<Rightarrow> fault s2
                             | Some fr2 \<Rightarrow>
                                 s2\<lparr>awaiters := (awaiters s2)(p \<mapsto>
                                       fr2\<lparr>point := Sep_function_await q\<rparr>)\<rparr>)))
           | Sep_function_await q \<Rightarrow> sep_after_await A p q s
           | Sep_final_suspend \<Rightarrow> fault s))"

text \<open>
  \<open>spawn\<close>: the entry point is called and a \<open>spawn_handler\<close> for it posted; the
  temporary handler is moved into the queue and then destroyed.
\<close>

definition spawn :: "'a spawn_args \<Rightarrow> 'a world \<Rightarrow> 'a world" where
  "spawn A s =
     (case spawn_entry_point s of
        (a, s1) \<Rightarrow>
          (case awaiter_task_ctor (spawn_ex A) a s1 of
             (h, s2) \<Rightarrow>
               (case awaiter_task_move h of
                  (queued, h') \<Rightarrow>
                    awaiter_task_dtor h' (emit (Posted (Post_spawn_handler queued)) s2))))"

text \<open>
  Resuming a handle: a frame with an \<open>awaiter\<close> promise is \<open>spawn_entry_point\<close>; what
  a coroutine of the user does when resumed is the parameter \<open>resume_awaitee\<close>.
\<close>

definition resume_handle ::
  "'a spawn_args \<Rightarrow> (addr \<Rightarrow> 'a world \<Rightarrow> 'a world) \<Rightarrow> handle \<Rightarrow> 'a world \<Rightarrow> 'a world" where
  "resume_handle A resume_awaitee h s =
     (case h of
        Awaiter_frame p \<Rightarrow> spawn_entry_point_resume A p s
      | Awaitee_frame q \<Rightarrow> resume_awaitee q s)"

text \<open>The calls of the final handler that were dispatched, in order.\<close>

fun dispatched :: "'a event list \<Rightarrow> (executor \<times> exception_ptr \<times> 'a) list" where
  "dispatched [] = []"
| "dispatched (Dispatched x e t # evs) = (x, e, t) # dispatched evs"
| "dispatched (Posted a # evs) = dispatched evs"
| "dispatched (Destroyed h # evs) = dispatched evs"

text \<open>What was posted, in order.\<close>

fun posted_actions :: "'a event list \<Rightarrow> posted list" where
  "posted_actions [] = []"
| "posted_actions (Posted a # evs) = a # posted_actions evs"
| "posted_actions (Dispatched x e t # evs) = posted_actions evs"
| "posted_actions (Destroyed h # evs) = posted_actions evs"

subsection \<open>User functions\<close>

text \<open>
  A coroutine returning \<open>awaitable<T>\<close> whose body is \<open>co_return v;\<close>: the call
  allocates the frame, \<open>initial_suspend\<close> does not suspend, \<open>return_value\<close> stores
  \<open>v\<close>, and the final suspension wakes the caller, of which there is none yet.
  With the body \<open>throw e;\<close> the promise's \<open>unhandled_exception\<close> runs instead.
\<close>

definition coroutine_returning ::
  "'a \<Rightarrow> executor \<Rightarrow> addr \<Rightarrow> 'a world \<Rightarrow> (exn + addr) \<times> 'a world" where
  "coroutine_returning v e a s =
     (let q = next_addr s;
          s1 = s\<lparr>awaitees := (awaitees s)(q \<mapsto> return_value v awaitee_init),
                 next_addr := Suc q\<rparr>
      in (Inr q, wake_caller (\<lambda>h. fault) q s1))"

definition coroutine_throwing ::
  "exn \<Rightarrow> executor \<Rightarrow> addr \<Rightarrow> 'a world \<Rightarrow> (exn + addr) \<times> 'a world" where
  "coroutine_throwing x e a s =
     (let q = next_addr s;
          s1 = s\<lparr>awaitees := (awaitees s)(q \<mapsto> awaitee_unhandled_exception x awaitee_init),
                 next_addr := Suc q\<rparr>
      in (Inr q, wake_caller (\<lambda>h. fault) q s1))"

text \<open>
  A function that is not a coroutine: it starts one asynchronous operation with the
  context as completion token and returns the operation's awaitable. The handler
  (\<open>handler_type\<close>, lines 667-672) is constructed from the context, and
  \<open>async_result\<close> (lines 674-693) takes the awaitable from \<open>make_awaitable\<close>. The
  operation keeps the handler, which is the second definition, and calls it on completion.
\<close>

definition operation_awaitable ::
  "executor \<Rightarrow> addr \<Rightarrow> 'a world \<Rightarrow> (exn + addr) \<times> 'a world" where
  "operation_awaitable e a s =
     (case await_handler_base_ctor e a s of
        (h, s1) \<Rightarrow> (case make_awaitable h s1 of (h', q, s2) \<Rightarrow> (Inr q, s2)))"

definition operation_handler :: "executor \<Rightarrow> addr \<Rightarrow> 'a world \<Rightarrow> await_handler_base" where
  "operation_handler e a s =
     (case await_handler_base_ctor e a s of
        (h, s1) \<Rightarrow> (case make_awaitable h s1 of (h', q, s2) \<Rightarrow> h'))"

text \<open>A function that is not a coroutine and throws when it is called.\<close>

definition function_throwing ::
  "exn \<Rightarrow> executor \<Rightarrow> addr \<Rightarrow> 'a world \<Rightarrow> (exn + addr) \<times> 'a world" where
  "function_throwing x e a s = (Inl x, s)"

subsection \<open>One spawned chain\<close>

text \<open>
  A chain of \<open>awaitable<int>\<close> spawned in the empty store on executor 3, with a work
  guard on executor 7, for a user function \<open>f\<close>; \<open>d\<close> is what \<open>dispatch\<close> throws.
  \<open>chain_started\<close> is the store after \<open>spawn\<close> and after the executor has run the
  posted \<open>spawn_handler\<close>.
\<close>

definition chain_args ::
  "(executor \<Rightarrow> addr \<Rightarrow> int world \<Rightarrow> (exn + addr) \<times> int world) \<Rightarrow> exception_ptr
     \<Rightarrow> int spawn_args" where
  "chain_args f d =
     \<lparr>work_guard = 7, spawn_ex = 3, user_function = f, default_value = 0,
      dispatch_throws = (\<lambda>x e t. d)\<rparr>"

definition chain_resume ::
  "(executor \<Rightarrow> addr \<Rightarrow> int world \<Rightarrow> (exn + addr) \<times> int world) \<Rightarrow> exception_ptr
     \<Rightarrow> handle \<Rightarrow> int world \<Rightarrow> int world" where
  "chain_resume f d = resume_handle (chain_args f d) (\<lambda>q. fault)"

definition chain_started ::
  "(executor \<Rightarrow> addr \<Rightarrow> int world \<Rightarrow> (exn + addr) \<times> int world) \<Rightarrow> exception_ptr
     \<Rightarrow> int world" where
  "chain_started f d =
     snd (spawn_handler_call (chain_resume f d) \<lparr>task_ex = 3, task_awaiter = Some 0\<rparr>
            (spawn (chain_args f d) world_init))"

subsection \<open>awaiter::rethrow_exception, statement by statement (lines 80-87)\<close>

text \<open>
  The member is three statements on a plain \<open>std::exception_ptr\<close>, with no lock and
  no atomic operation: the test \<open>if (pending_exception_)\<close>, the assignment
  \<open>ex = std::exchange(pending_exception_, nullptr)\<close> and
  \<open>std::rethrow_exception(ex)\<close>. A call is at one of them, or it has returned
  without throwing, or thrown, or it has reached \<open>std::rethrow_exception\<close> with a null
  pointer, which the standard leaves undefined. \<open>std::exchange\<close> is taken as one
  step. \<open>awaitee_base::rethrow_exception\<close> (lines 167-174) is the same text.
\<close>

datatype rethrow_call =
    At_test
  | At_exchange
  | At_rethrow exception_ptr
  | Call_returned
  | Call_thrown exn
  | Call_undetermined

fun rethrow_exception_step :: "rethrow_call \<Rightarrow> awaiter \<Rightarrow> rethrow_call \<times> awaiter" where
  "rethrow_exception_step At_test a =
     (if pending_exception a \<noteq> None then At_exchange else Call_returned, a)"
| "rethrow_exception_step At_exchange a =
     (At_rethrow (pending_exception a), a\<lparr>pending_exception := None\<rparr>)"
| "rethrow_exception_step (At_rethrow (Some e)) a = (Call_thrown e, a)"
| "rethrow_exception_step (At_rethrow None) a = (Call_undetermined, a)"
| "rethrow_exception_step Call_returned a = (Call_returned, a)"
| "rethrow_exception_step (Call_thrown e) a = (Call_thrown e, a)"
| "rethrow_exception_step Call_undetermined a = (Call_undetermined, a)"

text \<open>One call run alone: its three statements in a row.\<close>

definition rethrow_exception_alone :: "awaiter \<Rightarrow> rethrow_call \<times> awaiter" where
  "rethrow_exception_alone a =
     (case rethrow_exception_step At_test a of
        (c1, a1) \<Rightarrow>
          (case rethrow_exception_step c1 a1 of
             (c2, a2) \<Rightarrow> rethrow_exception_step c2 a2))"


section \<open>Properties\<close>

subsection \<open>Unfolding the members\<close>

lemma release_unfold:
  "release a = (a\<lparr>ref_count := ref_count a - 1\<rparr>, ref_count a = 1)"
  by (simp add: release_def Let_def)

lemma awaiter_rethrow_exception_unfold:
  "awaiter_rethrow_exception a = (a\<lparr>pending_exception := None\<rparr>, pending_exception a)"
  by (cases a; cases "pending_exception a") (simp_all add: awaiter_rethrow_exception_def)

lemma posted_actions_append [simp]:
  "posted_actions (xs @ ys) = posted_actions xs @ posted_actions ys"
  by (induction xs rule: posted_actions.induct) simp_all

lemma dispatched_append [simp]:
  "dispatched (xs @ ys) = dispatched xs @ dispatched ys"
  by (induction xs rule: dispatched.induct) simp_all

lemma awaiters_awaitable_dtor [simp]: "awaiters (awaitable_dtor x s) = awaiters s"
  by (simp add: awaitable_dtor_def fault_def emit_def split: option.split)

lemma posted_awaitable_dtor [simp]:
  "posted_actions (trace (awaitable_dtor x s)) = posted_actions (trace s)"
  by (simp add: awaitable_dtor_def fault_def emit_def split: option.split)

lemma posted_destroy_awaiter_frame [simp]:
  "posted_actions (trace (destroy_awaiter_frame p s)) = posted_actions (trace s)"
  by (simp add: destroy_awaiter_frame_def fault_def emit_def Let_def
      split: option.split sep_point.split)

lemma posted_awaiter_release [simp]:
  "posted_actions (trace (awaiter_release p s)) = posted_actions (trace s)"
  by (simp add: awaiter_release_def release_unfold fault_def Let_def split: option.split)

text \<open>The last reference: the frame is destroyed in the call of \<open>release\<close>.\<close>

lemma awaiter_release_last:
  "awaiters s p = Some fr \<Longrightarrow> ref_count (promise fr) = 1 \<Longrightarrow>
     awaiters (awaiter_release p s) = (awaiters s)(p := None)
     \<and> trace (awaiter_release p s) \<noteq> []
     \<and> last (trace (awaiter_release p s)) = Destroyed (Awaiter_frame p)"
  by (simp add: awaiter_release_def release_unfold destroy_awaiter_frame_def emit_def Let_def
      split: sep_point.split)

lemma awaiter_release_not_last:
  "awaiters s p = Some fr \<Longrightarrow> ref_count (promise fr) \<noteq> 1 \<Longrightarrow>
     awaiter_release p s =
       s\<lparr>awaiters := (awaiters s)(p \<mapsto>
            fr\<lparr>promise := (promise fr)\<lparr>ref_count := ref_count (promise fr) - 1\<rparr>\<rparr>)\<rparr>"
  by (simp add: awaiter_release_def release_unfold)

lemma awaiter_ptr_rethrow_exception_live:
  "awaiters s p = Some fr \<Longrightarrow>
     awaiter_ptr_rethrow_exception (Some p) s =
       (pending_exception (promise fr),
        s\<lparr>awaiters := (awaiters s)(p \<mapsto>
             fr\<lparr>promise := (promise fr)\<lparr>pending_exception := None\<rparr>\<rparr>)\<rparr>)"
  by (simp add: awaiter_ptr_rethrow_exception_def awaiter_rethrow_exception_unfold)

text \<open>
  \<open>operator()\<close> of a handler whose \<open>awaiter\<close> is still alive after the caller was
  woken: it throws what is pending there, clears the slot and releases once.
\<close>

lemma await_handler_call_live:
  assumes "task_awaiter h = Some p"
    and "awaiters (await_handler_wake resume (handler_awaitee h)
                    (await_handler_store args (handler_awaitee h) s)) p = Some fr"
  shows "await_handler_call resume args h s =
           (h\<lparr>task_awaiter := None\<rparr>, pending_exception (promise fr),
            awaiter_release p
              ((await_handler_wake resume (handler_awaitee h)
                  (await_handler_store args (handler_awaitee h) s))
               \<lparr>awaiters := (awaiters (await_handler_wake resume (handler_awaitee h)
                  (await_handler_store args (handler_awaitee h) s)))
                  (p \<mapsto> fr\<lparr>promise := (promise fr)\<lparr>pending_exception := None\<rparr>\<rparr>)\<rparr>))"
  using assms
  by (simp add: await_handler_call_def Let_def awaiter_ptr_rethrow_exception_live
      awaiter_delete_def)

lemma await_handler_write_failure:
  assumes "(error_code_bool ec \<and> (args = Args_ec ec \<or> args = Args_ec_value ec t)
              \<and> e = System_error ec)
           \<or> args = Args_ex (Some e) \<or> args = Args_ex_value (Some e) t"
  shows "await_handler_write args c = c\<lparr>awaitee_pending_exception := Some e, ready_flag := True\<rparr>"
  using assms by (auto simp: await_handler_write_def awaitee_set_exception_def)

subsection \<open>The body of spawn_entry_point\<close>

lemma awaitable_await_resume_throws:
  "awaitees s q = Some c \<Longrightarrow> awaitee_pending_exception c = Some e \<Longrightarrow>
     awaitable_await_resume q s =
       (Throws e, s\<lparr>awaitees := (awaitees s)(q \<mapsto>
                      c\<lparr>caller := None, awaitee_pending_exception := None\<rparr>)\<rparr>)"
  by (simp add: awaitable_await_resume_def await_resume_def awaitee_value_def set_caller_def
      awaitee_rethrow_exception_def)

lemma awaitable_await_resume_returns:
  "awaitees s q = Some c \<Longrightarrow> awaitee_pending_exception c = None \<Longrightarrow> buf c = Holds v \<Longrightarrow>
     awaitable_await_resume q s =
       (Returns v, s\<lparr>awaitees := (awaitees s)(q \<mapsto> c\<lparr>caller := None, buf := Moved_from\<rparr>)\<rparr>)"
  by (simp add: awaitable_await_resume_def await_resume_def awaitee_value_def set_caller_def
      awaitee_rethrow_exception_def)

lemma dispatched_awaitable_dtor [simp]:
  "dispatched (trace (awaitable_dtor x s)) = dispatched (trace s)"
  by (simp add: awaitable_dtor_def fault_def emit_def split: option.split)

lemma dispatched_sep_finish [simp]:
  "dispatched (trace (sep_finish p (thrown, s))) = dispatched (trace s)"
  by (simp add: sep_finish_def fault_def split: option.split)

lemma sep_catch_not_done:
  "awaiters s p = Some fr \<Longrightarrow> \<not> done_flag fr \<Longrightarrow>
     sep_catch A p e s =
       (dispatch_throws A (work_guard A) (Some e) (default_value A),
        emit (Dispatched (work_guard A) (Some e) (default_value A)) s)"
  by (simp add: sep_catch_def sep_dispatch_def)

lemma sep_catch_done:
  "awaiters s p = Some fr \<Longrightarrow> done_flag fr \<Longrightarrow> sep_catch A p e s = (Some e, s)"
  by (simp add: sep_catch_def)

lemma sep_after_await_failure:
  assumes "awaiters s p = Some fr" "\<not> done_flag fr"
    and "awaitees s q = Some c" "awaitee_pending_exception c = Some e"
  shows "dispatched (trace (sep_after_await A p q s))
           = dispatched (trace s) @ [(work_guard A, Some e, default_value A)]"
proof -
  let ?s1 = "s\<lparr>awaitees := (awaitees s)(q \<mapsto>
                 c\<lparr>caller := None, awaitee_pending_exception := None\<rparr>)\<rparr>"
  have live: "awaiters (awaitable_dtor (Some q) ?s1) p = Some fr"
    using assms(1) by simp
  show ?thesis
    using assms sep_catch_not_done [OF live assms(2), of A e]
    by (simp add: sep_after_await_def awaitable_await_resume_throws emit_def)
qed

lemma sep_after_await_value:
  assumes "awaiters s p = Some fr"
    and "awaitees s q = Some c" "awaitee_pending_exception c = None" "buf c = Holds v"
  shows "dispatched (trace (sep_after_await A p q s))
           = dispatched (trace s) @ [(work_guard A, None, v)]
     \<and> awaiters (sep_after_await A p q s) p
           = Some (fr\<lparr>promise :=
                        (case dispatch_throws A (work_guard A) None v of
                           None \<Rightarrow> promise fr
                         | Some e \<Rightarrow> awaiter_unhandled_exception e (promise fr)),
                      point := Sep_final_suspend, done_flag := True\<rparr>)"
proof -
  let ?s1 = "awaitable_dtor (Some q)
               (s\<lparr>awaitees := (awaitees s)(q \<mapsto> c\<lparr>caller := None, buf := Moved_from\<rparr>)\<rparr>)"
  let ?s2 = "emit (Dispatched (work_guard A) None v) (sep_set_done p ?s1)"
  have live1: "awaiters ?s1 p = Some fr"
    using assms(1) by simp
  have live2: "awaiters ?s2 p = Some (fr\<lparr>done_flag := True\<rparr>)"
    using live1 by (simp add: sep_set_done_def emit_def)
  have tr: "dispatched (trace ?s2) = dispatched (trace s) @ [(work_guard A, None, v)]"
    using live1 by (simp add: sep_set_done_def emit_def)
  have after: "sep_after_await A p q s =
      (case dispatch_throws A (work_guard A) None v of
         None \<Rightarrow> sep_finish p (None, ?s2)
       | Some e \<Rightarrow> sep_finish p (sep_catch A p e ?s2))"
    using assms by (simp add: sep_after_await_def awaitable_await_resume_returns sep_dispatch_def)
  show ?thesis
  proof (cases "dispatch_throws A (work_guard A) None v")
    case None
    then show ?thesis
      using after tr live2
      by (simp add: sep_finish_def)
  next
    case (Some e)
    have "sep_catch A p e ?s2 = (Some e, ?s2)"
      using live2 by (rule sep_catch_done) simp
    then show ?thesis
      using after tr live2 Some
      by (simp add: sep_finish_def)
  qed
qed

subsection \<open>The chain that awaits one operation, step by step\<close>

lemma spawn_world_init:
  "spawn (chain_args f d) world_init =
     \<lparr>awaiters = [0 \<mapsto> \<lparr>promise = \<lparr>ref_count = 1, pending_exception = None\<rparr>,
                         point = Sep_context_await, done_flag = False\<rparr>],
      awaitees = Map.empty, next_addr = 1,
      trace = [Posted (Post_spawn_handler \<lparr>task_ex = 3, task_awaiter = Some 0\<rparr>)],
      undetermined = False\<rparr>"
  by (simp add: spawn_def spawn_entry_point_def world_init_def awaiter_task_ctor_def
      awaiter_add_ref_def add_ref_def awaiter_init_def awaiter_task_move_def awaiter_task_dtor_def
      emit_def chain_args_def Let_def)

lemma chain_started_operation:
  "chain_started operation_awaitable d =
     \<lparr>awaiters = [0 \<mapsto> \<lparr>promise = \<lparr>ref_count = 1, pending_exception = None\<rparr>,
                         point = Sep_function_await 1, done_flag = False\<rparr>],
      awaitees = [1 \<mapsto> awaitee_init\<lparr>caller := Some (Awaiter_frame 0)\<rparr>], next_addr = 2,
      trace = [Posted (Post_spawn_handler \<lparr>task_ex = 3, task_awaiter = Some 0\<rparr>)],
      undetermined = False\<rparr>"
  unfolding chain_started_def chain_resume_def spawn_world_init
  by (simp add: spawn_handler_call_def resume_handle_def spawn_entry_point_resume_def
      chain_args_def operation_awaitable_def await_handler_base_ctor_def awaiter_add_ref_def
      add_ref_def make_awaitable_def make_dummy_awaitable_def awaitable_await_ready_def
      ready_def awaitee_init_def awaitable_await_suspend_def set_caller_def awaiter_delete_def
      awaiter_release_def release_unfold Let_def)

lemmas chain_step_defs =
  await_handler_store_def await_handler_write_def await_handler_wake_def wake_caller_def
  return_value_def return_void_def awaitee_set_exception_def error_code_bool_def
  awaitee_init_def chain_resume_def resume_handle_def chain_args_def
  spawn_entry_point_resume_def sep_after_await_def awaitable_await_resume_def
  await_resume_def awaitee_value_def set_caller_def awaitee_rethrow_exception_def
  awaitable_dtor_def emit_def sep_set_done_def sep_dispatch_def sep_catch_def sep_finish_def
  awaiter_unhandled_exception_def

text \<open>
  The operation completes with the value \<open>v\<close>: the store in which \<open>wake_caller\<close>
  returns to the handler.
\<close>

lemma chain_woken_value:
  "await_handler_wake (chain_resume operation_awaitable d) (Some 1)
     (await_handler_store (Args_value v) (Some 1) (chain_started operation_awaitable d)) =
     \<lparr>awaiters = [0 \<mapsto> \<lparr>promise = \<lparr>ref_count = 1, pending_exception = d\<rparr>,
                         point = Sep_final_suspend, done_flag = True\<rparr>],
      awaitees = Map.empty, next_addr = 2,
      trace = [Posted (Post_spawn_handler \<lparr>task_ex = 3, task_awaiter = Some 0\<rparr>),
               Destroyed (Awaitee_frame 1), Dispatched 7 None v],
      undetermined = False\<rparr>"
  unfolding chain_started_operation
  by (cases d) (simp_all add: chain_step_defs)

text \<open>
  Chains whose user function is a coroutine that finishes without suspending, after the
  executor has run the \<open>spawn_handler\<close>.
\<close>

lemma chain_started_returning:
  "chain_started (coroutine_returning v) d =
     \<lparr>awaiters = Map.empty, awaitees = Map.empty, next_addr = 2,
      trace = [Posted (Post_spawn_handler \<lparr>task_ex = 3, task_awaiter = Some 0\<rparr>),
               Destroyed (Awaitee_frame 1), Destroyed (Awaiter_frame 0)],
      undetermined = False\<rparr>"
  unfolding chain_started_def chain_resume_def spawn_world_init
  by (simp add: spawn_handler_call_def resume_handle_def spawn_entry_point_resume_def
      chain_args_def coroutine_returning_def wake_caller_def return_value_def
      awaitable_await_ready_def ready_def awaitee_init_def
      awaitable_await_suspend_def set_caller_def awaiter_delete_def awaiter_release_def
      release_unfold destroy_awaiter_frame_def awaitable_dtor_def emit_def Let_def)

lemma chain_started_throwing:
  "chain_started (coroutine_throwing x) None =
     \<lparr>awaiters = Map.empty, awaitees = Map.empty, next_addr = 2,
      trace = [Posted (Post_spawn_handler \<lparr>task_ex = 3, task_awaiter = Some 0\<rparr>),
               Destroyed (Awaitee_frame 1), Dispatched 7 (Some x) 0,
               Destroyed (Awaiter_frame 0)],
      undetermined = False\<rparr>"
  unfolding chain_started_def chain_resume_def spawn_world_init
  by (simp add: spawn_handler_call_def resume_handle_def spawn_entry_point_resume_def
      chain_args_def coroutine_throwing_def wake_caller_def awaitee_unhandled_exception_def
      awaitable_await_ready_def ready_def awaitee_init_def sep_after_await_def
      awaitable_await_resume_def await_resume_def awaitee_value_def awaitee_rethrow_exception_def
      sep_catch_def sep_dispatch_def sep_finish_def
      awaitable_await_suspend_def set_caller_def awaiter_delete_def awaiter_release_def
      release_unfold destroy_awaiter_frame_def awaitable_dtor_def emit_def Let_def)

lemma dispatched_destroy_awaiter_frame [simp]:
  "dispatched (trace (destroy_awaiter_frame p s)) = dispatched (trace s)"
  by (simp add: destroy_awaiter_frame_def fault_def emit_def Let_def
      split: option.split sep_point.split)

lemma dispatched_awaiter_release [simp]:
  "dispatched (trace (awaiter_release p s)) = dispatched (trace s)"
  by (simp add: awaiter_release_def release_unfold fault_def Let_def split: option.split)

text \<open>
  The chain that awaits one operation delivers the value with which the operation
  completes, once.
\<close>

lemma chain_operation_value_delivered:
  "dispatched (trace (snd (snd (await_handler_call (chain_resume operation_awaitable None)
       (Args_value v) \<lparr>task_ex = 3, task_awaiter = Some 0, handler_awaitee = Some 1\<rparr>
       (chain_started operation_awaitable None))))) = [(7, None, v)]"
proof -
  let ?h = "\<lparr>task_ex = 3, task_awaiter = Some 0, handler_awaitee = Some 1\<rparr>"
  let ?fr = "\<lparr>promise = \<lparr>ref_count = 1, pending_exception = None\<rparr>,
               point = Sep_final_suspend, done_flag = True\<rparr>"
  have held: "task_awaiter ?h = Some 0"
    by simp
  have live: "awaiters (await_handler_wake (chain_resume operation_awaitable None)
      (handler_awaitee ?h)
      (await_handler_store (Args_value v) (handler_awaitee ?h)
         (chain_started operation_awaitable None))) 0 = Some ?fr"
    by (simp del: One_nat_def add: chain_woken_value)
  show ?thesis
    by (simp del: One_nat_def add: await_handler_call_live [OF held live] chain_woken_value)
qed

subsection \<open>Rethrowing a pending exception\<close>

text \<open>The three statements of one call, run alone, are the member as defined above.\<close>

lemma rethrow_exception_alone_agrees:
  "rethrow_exception_alone a =
     (case awaiter_rethrow_exception a of
        (a', Some e) \<Rightarrow> (Call_thrown e, a')
      | (a', None) \<Rightarrow> (Call_returned, a'))"
  by (cases "pending_exception a")
     (simp_all add: rethrow_exception_alone_def awaiter_rethrow_exception_def)



subsection \<open>Consuming a result\<close>

text \<open>
  C6. \<open>awaitable<T>::await_resume\<close> clears the caller link first, so the link is null
  also when the call throws; then it rethrows the recorded exception if there is one,
  clearing that slot, and otherwise returns the stored value and leaves the storage
  moved-from.
\<close>

theorem await_resume_consumes:
  "caller (fst (await_resume c)) = None
   \<and> (awaitee_pending_exception c = Some e \<longrightarrow>
        await_resume c = (c\<lparr>caller := None, awaitee_pending_exception := None\<rparr>, Throws e))
   \<and> (awaitee_pending_exception c = None \<longrightarrow> buf c = Holds v \<longrightarrow>
        await_resume c = (c\<lparr>caller := None, buf := Moved_from\<rparr>, Returns v))
   \<and> (awaitees s q = Some c \<longrightarrow>
        awaitable_await_resume q s
          = (snd (await_resume c), s\<lparr>awaitees := (awaitees s)(q \<mapsto> fst (await_resume c))\<rparr>))"
  by (auto simp: await_resume_def awaitee_value_def set_caller_def awaitee_rethrow_exception_def
      awaitable_await_resume_def split: option.split slot.split prod.split)

theorem await_resume_consumes_witness:
  "await_resume ((awaitee_init :: int awaitee)\<lparr>caller := Some (Awaiter_frame 0),
       awaitee_pending_exception := Some (Exception 1), ready_flag := True\<rparr>)
     = (awaitee_init\<lparr>ready_flag := True\<rparr>, Throws (Exception 1))
   \<and> await_resume ((awaitee_init :: int awaitee)\<lparr>caller := Some (Awaiter_frame 0),
       buf := Holds 42, initialised := True\<rparr>)
     = (awaitee_init\<lparr>buf := Moved_from, initialised := True\<rparr>, Returns 42)
   \<and> awaitable_await_resume 0
        ((world_init :: int world)\<lparr>awaitees := [0 \<mapsto> return_value 42 awaitee_init]\<rparr>)
     = (Returns 42,
        world_init\<lparr>awaitees := [0 \<mapsto> awaitee_init\<lparr>buf := Moved_from, initialised := True\<rparr>]\<rparr>)"
  using await_resume_consumes [of "(awaitee_init :: int awaitee)\<lparr>caller := Some (Awaiter_frame 0),
       awaitee_pending_exception := Some (Exception 1), ready_flag := True\<rparr>" "Exception 1"]
    await_resume_consumes [of "(awaitee_init :: int awaitee)\<lparr>caller := Some (Awaiter_frame 0),
       buf := Holds 42, initialised := True\<rparr>" _ 42]
    await_resume_consumes [of "return_value (42::int) awaitee_init" _ 42
        "(world_init :: int world)\<lparr>awaitees := [0 \<mapsto> return_value 42 awaitee_init]\<rparr>" 0]
  by (simp add: awaitee_init_def return_value_def world_init_def)

subsection \<open>Readiness\<close>

text \<open>
  C7. \<open>ready()\<close> returns \<open>ready_\<close>, which \<open>set_exception\<close> and
  \<open>unhandled_exception\<close> set but \<open>return_value\<close> and \<open>return_void\<close> leave as it
  is: after a value was written into a fresh \<open>awaitee\<close>, \<open>ready()\<close> is still false,
  and so is \<open>await_ready\<close> on the awaitable of a coroutine that has already returned
  its value.
\<close>

theorem ready_false_after_return_value:
  "ready (return_value v awaitee_init) = False
   \<and> ready (return_value v c) = ready c
   \<and> ready (return_void c) = ready c
   \<and> ready (awaitee_set_exception x c) = True
   \<and> ready (awaitee_unhandled_exception e c) = True
   \<and> awaitable_await_ready (next_addr s) (snd (coroutine_returning v ex p s)) = Some False"
  by (simp add: ready_def return_value_def return_void_def awaitee_set_exception_def
      awaitee_unhandled_exception_def awaitee_init_def awaitable_await_ready_def
      coroutine_returning_def wake_caller_def Let_def)

subsection \<open>A completion that reports a failure\<close>

text \<open>
  C5. When the callback of a handler reports a failure (an \<open>error_code\<close> that converts
  to true, or an exception pointer that is not null), \<open>operator()\<close> records the
  failure in its target, as a \<open>system_error\<close> made from the \<open>error_code\<close> or as the
  exception itself, marks the target ready and leaves \<open>buf_\<close> and \<open>initialised_\<close>
  as they were; it is in this store that the registered caller is resumed, and
  \<open>await_resume\<close> on the target throws the failure there. The whole call is that
  store, handed to the caller if there is one, followed by the rethrow on the
  \<open>awaiter\<close> and the release. With no caller registered and a reference left on the
  \<open>awaiter\<close>, the target still holds the failure when \<open>operator()\<close> returns, its
  buffer is untouched, and \<open>await_resume\<close> then throws it.
\<close>

theorem await_handler_failure_recorded:
  assumes target: "handler_awaitee h = Some q" "awaitees s q = Some c"
    and failure:
      "(error_code_bool ec \<and> (args = Args_ec ec \<or> args = Args_ec_value ec t)
          \<and> e = System_error ec)
       \<or> args = Args_ex (Some e) \<or> args = Args_ex_value (Some e) t"
  shows "await_handler_call resume args h s
           = (case awaiter_ptr_rethrow_exception (task_awaiter h)
                     (case caller c of
                        None \<Rightarrow>
                          s\<lparr>awaitees := (awaitees s)(q \<mapsto>
                               c\<lparr>awaitee_pending_exception := Some e, ready_flag := True\<rparr>)\<rparr>
                      | Some k \<Rightarrow>
                          resume k
                            (s\<lparr>awaitees := (awaitees s)(q \<mapsto>
                                 c\<lparr>awaitee_pending_exception := Some e, ready_flag := True\<rparr>)\<rparr>)) of
                (thrown, s3) \<Rightarrow>
                  (h\<lparr>task_awaiter := None\<rparr>, thrown, awaiter_delete (task_awaiter h) s3))
     \<and> awaitees (await_handler_store args (handler_awaitee h) s) q
           = Some (c\<lparr>awaitee_pending_exception := Some e, ready_flag := True\<rparr>)
     \<and> map_option buf (awaitees (await_handler_store args (handler_awaitee h) s) q)
           = Some (buf c)
     \<and> map_option initialised (awaitees (await_handler_store args (handler_awaitee h) s) q)
           = Some (initialised c)
     \<and> fst (awaitable_await_resume q (await_handler_store args (handler_awaitee h) s)) = Throws e
     \<and> (case caller c of
          Some k \<Rightarrow>
            await_handler_wake resume (handler_awaitee h)
                (await_handler_store args (handler_awaitee h) s)
              = resume k (await_handler_store args (handler_awaitee h) s)
        | None \<Rightarrow>
            await_handler_wake resume (handler_awaitee h)
                (await_handler_store args (handler_awaitee h) s)
              = await_handler_store args (handler_awaitee h) s)
     \<and> (caller c = None \<longrightarrow> task_awaiter h = Some p \<longrightarrow> awaiters s p = Some fr \<longrightarrow>
          ref_count (promise fr) \<noteq> 1 \<longrightarrow>
            awaitees (snd (snd (await_handler_call resume args h s))) q
              = Some (c\<lparr>awaitee_pending_exception := Some e, ready_flag := True\<rparr>)
            \<and> map_option buf (awaitees (snd (snd (await_handler_call resume args h s))) q)
              = Some (buf c)
            \<and> map_option initialised
                (awaitees (snd (snd (await_handler_call resume args h s))) q)
              = Some (initialised c)
            \<and> fst (awaitable_await_resume q (snd (snd (await_handler_call resume args h s))))
              = Throws e)"
proof -
  let ?c' = "c\<lparr>awaitee_pending_exception := Some e, ready_flag := True\<rparr>"
  let ?s1 = "s\<lparr>awaitees := (awaitees s)(q \<mapsto> ?c')\<rparr>"
  let ?s2 = "case caller c of None \<Rightarrow> ?s1 | Some k \<Rightarrow> resume k ?s1"
  have w: "await_handler_write args c = ?c'"
    using failure by (rule await_handler_write_failure)
  have stored: "await_handler_store args (Some q) s = ?s1"
    using target w by (simp add: await_handler_store_def)
  have woken: "await_handler_wake resume (Some q) ?s1 = ?s2"
    by (cases "caller c") (simp_all add: await_handler_wake_def wake_caller_def)
  have call: "await_handler_call resume args h s
           = (case awaiter_ptr_rethrow_exception (task_awaiter h) ?s2 of
                (thrown, s3) \<Rightarrow>
                  (h\<lparr>task_awaiter := None\<rparr>, thrown, awaiter_delete (task_awaiter h) s3))"
    by (simp add: await_handler_call_def Let_def target stored woken)
  have consumed: "fst (awaitable_await_resume q ?s1) = Throws e"
    by (simp add: awaitable_await_resume_throws)
  have kept: "awaitees (snd (snd (await_handler_call resume args h s))) q = Some ?c'
            \<and> fst (awaitable_await_resume q (snd (snd (await_handler_call resume args h s))))
              = Throws e"
    if "caller c = None" "task_awaiter h = Some p" "awaiters s p = Some fr"
      "ref_count (promise fr) \<noteq> 1"
  proof -
    let ?fr3 = "fr\<lparr>promise := (promise fr)\<lparr>pending_exception := None\<rparr>\<rparr>"
    let ?s3 = "?s1\<lparr>awaiters := (awaiters ?s1)(p \<mapsto> ?fr3)\<rparr>"
    have live1: "awaiters ?s1 p = Some fr"
      using that(3) by simp
    have live3: "awaiters ?s3 p = Some ?fr3"
      by simp
    have count3: "ref_count (promise ?fr3) \<noteq> 1"
      using that(4) by simp
    have final: "snd (snd (await_handler_call resume args h s)) = awaiter_release p ?s3"
      using that(1,2)
      by (simp add: call awaiter_ptr_rethrow_exception_live [OF live1] awaiter_delete_def)
    have a: "awaitees (awaiter_release p ?s3) q = Some ?c'"
      by (subst awaiter_release_not_last [OF live3 count3]) simp
    show ?thesis
      unfolding final using a by (simp add: awaitable_await_resume_throws)
  qed
  have woken': "(case caller c of
          Some k \<Rightarrow> await_handler_wake resume (Some q) ?s1 = resume k ?s1
        | None \<Rightarrow> await_handler_wake resume (Some q) ?s1 = ?s1)"
    using woken by (cases "caller c") simp_all
  show ?thesis
    unfolding target stored using call consumed kept woken' by simp
qed

text \<open>
  The chain that awaits one operation, when the operation reports \<open>error_code\<close> 5: the
  target was made by \<open>make_awaitable\<close>, so its buffer is never initialised, and the
  resumed \<open>spawn_entry_point\<close> consumes the failure and dispatches it. And an
  operation that completes with an exception inside the user function, before anybody
  awaits its awaitable.
\<close>

theorem await_handler_failure_recorded_witness:
  "fst (snd (await_handler_call (chain_resume operation_awaitable None) (Args_ec_value 5 42)
        \<lparr>task_ex = 3, task_awaiter = Some 0, handler_awaitee = Some 1\<rparr>
        (chain_started operation_awaitable None))) = None
   \<and> dispatched (trace (snd (snd (await_handler_call (chain_resume operation_awaitable None)
        (Args_ec_value 5 42) \<lparr>task_ex = 3, task_awaiter = Some 0, handler_awaitee = Some 1\<rparr>
        (chain_started operation_awaitable None)))))
       = [(7, Some (System_error 5), 0)]
   \<and> map_option buf (awaitees (await_handler_store (Args_ec_value 5 42) (Some 1)
        (chain_started operation_awaitable None)) 1) = Some Uninitialised
   \<and> map_option initialised (awaitees (await_handler_store (Args_ec_value 5 42) (Some 1)
        (chain_started operation_awaitable None)) 1) = Some False
   \<and> awaitees (snd (snd (await_handler_call (chain_resume operation_awaitable None)
        (Args_ex (Some (Exception 2)))
        \<lparr>task_ex = 3, task_awaiter = Some 0, handler_awaitee = Some 1\<rparr>
        (snd (operation_awaitable 3 0 (spawn (chain_args operation_awaitable None) world_init))))))
        1
       = Some (awaitee_init\<lparr>awaitee_pending_exception := Some (Exception 2),
                 ready_flag := True\<rparr>)
   \<and> fst (awaitable_await_resume 1 (snd (snd (await_handler_call
        (chain_resume operation_awaitable None) (Args_ex (Some (Exception 2)))
        \<lparr>task_ex = 3, task_awaiter = Some 0, handler_awaitee = Some 1\<rparr>
        (snd (operation_awaitable 3 0
                (spawn (chain_args operation_awaitable None) world_init)))))))
       = Throws (Exception 2)"
proof -
  let ?h = "\<lparr>task_ex = 3, task_awaiter = Some 0, handler_awaitee = Some 1\<rparr>"
  let ?r = "chain_resume operation_awaitable None"
  let ?s = "chain_started operation_awaitable None"
  let ?c = "(awaitee_init :: int awaitee)\<lparr>caller := Some (Awaiter_frame 0)\<rparr>"
  have t1: "handler_awaitee ?h = Some 1"
    by simp
  have t2: "awaitees ?s 1 = Some ?c"
    unfolding chain_started_operation by simp
  have f1: "(error_code_bool 5 \<and> (Args_ec_value 5 (42::int) = Args_ec 5
               \<or> Args_ec_value 5 (42::int) = Args_ec_value 5 42)
              \<and> System_error 5 = System_error 5)
            \<or> Args_ec_value 5 (42::int) = Args_ex (Some (System_error 5))
            \<or> Args_ec_value 5 (42::int) = Args_ex_value (Some (System_error 5)) 42"
    by (simp add: error_code_bool_def)
  note first = await_handler_failure_recorded [OF t1 t2 f1, of ?r]
  have run: "(case caller ?c of
               None \<Rightarrow> ?s\<lparr>awaitees := (awaitees ?s)(1 \<mapsto>
                   ?c\<lparr>awaitee_pending_exception := Some (System_error 5), ready_flag := True\<rparr>)\<rparr>
             | Some k \<Rightarrow> ?r k (?s\<lparr>awaitees := (awaitees ?s)(1 \<mapsto>
                   ?c\<lparr>awaitee_pending_exception := Some (System_error 5),
                      ready_flag := True\<rparr>)\<rparr>))
      = \<lparr>awaiters = [0 \<mapsto> \<lparr>promise = \<lparr>ref_count = 1, pending_exception = None\<rparr>,
                         point = Sep_final_suspend, done_flag = False\<rparr>],
         awaitees = Map.empty, next_addr = 2,
         trace = [Posted (Post_spawn_handler \<lparr>task_ex = 3, task_awaiter = Some 0\<rparr>),
                  Destroyed (Awaitee_frame 1), Dispatched 7 (Some (System_error 5)) 0],
         undetermined = False\<rparr>"
    unfolding chain_started_operation
    by (simp add: chain_step_defs)
  have call1: "fst (snd (await_handler_call ?r (Args_ec_value 5 42) ?h ?s)) = None
      \<and> dispatched (trace (snd (snd (await_handler_call ?r (Args_ec_value 5 42) ?h ?s))))
          = [(7, Some (System_error 5), 0)]"
    using first [THEN conjunct1] unfolding run
    by (simp add: awaiter_ptr_rethrow_exception_def awaiter_rethrow_exception_def
        awaiter_delete_def)
  have store1: "map_option buf (awaitees (await_handler_store (Args_ec_value 5 42) (Some 1) ?s) 1)
        = Some Uninitialised
      \<and> map_option initialised
          (awaitees (await_handler_store (Args_ec_value 5 42) (Some 1) ?s) 1) = Some False"
    using first [THEN conjunct2] by (simp add: awaitee_init_def)

  let ?w = "snd (operation_awaitable 3 0 (spawn (chain_args operation_awaitable None) world_init))"
  let ?fr = "\<lparr>promise = \<lparr>ref_count = 2, pending_exception = None\<rparr>,
               point = Sep_context_await, done_flag = False\<rparr>"
  have w: "?w = \<lparr>awaiters = [0 \<mapsto> ?fr], awaitees = [1 \<mapsto> awaitee_init], next_addr = 2,
      trace = [Posted (Post_spawn_handler \<lparr>task_ex = 3, task_awaiter = Some 0\<rparr>)],
      undetermined = False\<rparr>"
    unfolding spawn_world_init
    by (simp add: operation_awaitable_def await_handler_base_ctor_def awaiter_add_ref_def
        add_ref_def make_awaitable_def make_dummy_awaitable_def Let_def)
  have u2: "awaitees ?w 1 = Some (awaitee_init :: int awaitee)"
    unfolding w by simp
  have f2: "(error_code_bool 0 \<and> (Args_ex (Some (Exception 2)) = Args_ec 0
               \<or> Args_ex (Some (Exception 2)) = Args_ec_value 0 (42::int))
              \<and> Exception 2 = System_error 0)
            \<or> Args_ex (Some (Exception 2)) = Args_ex (Some (Exception 2))
            \<or> Args_ex (Some (Exception 2)) = Args_ex_value (Some (Exception 2)) (42::int)"
    by simp
  have nocaller: "caller (awaitee_init :: int awaitee) = None"
    by (simp add: awaitee_init_def)
  have held: "task_awaiter ?h = Some 0"
    by simp
  have live: "awaiters ?w 0 = Some ?fr"
    unfolding w by simp
  have more: "ref_count (promise ?fr) \<noteq> 1"
    by simp
  note second = await_handler_failure_recorded [OF t1 u2 f2, of ?r 0 ?fr]
  have kept: "awaitees (snd (snd (await_handler_call ?r (Args_ex (Some (Exception 2))) ?h ?w))) 1
        = Some (awaitee_init\<lparr>awaitee_pending_exception := Some (Exception 2),
                  ready_flag := True\<rparr>)
      \<and> fst (awaitable_await_resume 1
            (snd (snd (await_handler_call ?r (Args_ex (Some (Exception 2))) ?h ?w))))
        = Throws (Exception 2)"
    using second [THEN conjunct2, THEN conjunct2, THEN conjunct2, THEN conjunct2,
        THEN conjunct2, THEN conjunct2] nocaller held live more
    by simp
  from call1 store1 kept show ?thesis
    by simp
qed

subsection \<open>Rethrowing on the invoking side\<close>

text \<open>
  C9. Every \<open>operator()\<close> of a handler ends with \<open>ptr->rethrow_exception()\<close>: after
  the outcome was written and the registered caller resumed, the call throws exactly the
  exception that is then pending on the \<open>awaiter\<close> (and returns normally when none is),
  whatever the resumed coroutines did; if the \<open>awaiter\<close> outlives the call, its slot
  is empty afterwards.
\<close>

theorem await_handler_rethrows_pending:
  assumes "task_awaiter h = Some p"
    and "awaiters (await_handler_wake resume (handler_awaitee h)
                    (await_handler_store args (handler_awaitee h) s)) p = Some fr"
  shows "fst (snd (await_handler_call resume args h s)) = pending_exception (promise fr)
     \<and> (case awaiters (snd (snd (await_handler_call resume args h s))) p of
          None \<Rightarrow> True
        | Some fr' \<Rightarrow> pending_exception (promise fr') = None)"
proof -
  let ?s2 = "await_handler_wake resume (handler_awaitee h)
               (await_handler_store args (handler_awaitee h) s)"
  let ?s3 = "?s2\<lparr>awaiters := (awaiters ?s2)
               (p \<mapsto> fr\<lparr>promise := (promise fr)\<lparr>pending_exception := None\<rparr>\<rparr>)\<rparr>"
  have call: "await_handler_call resume args h s
                = (h\<lparr>task_awaiter := None\<rparr>, pending_exception (promise fr), awaiter_release p ?s3)"
    using assms by (rule await_handler_call_live)
  have live: "awaiters ?s3 p = Some (fr\<lparr>promise := (promise fr)\<lparr>pending_exception := None\<rparr>\<rparr>)"
    by simp
  have "case awaiters (awaiter_release p ?s3) p of
          None \<Rightarrow> True
        | Some fr' \<Rightarrow> pending_exception (promise fr') = None"
  proof (cases "ref_count (promise fr) = 1")
    case True
    with awaiter_release_last [OF live] show ?thesis by simp
  next
    case False
    with awaiter_release_not_last [OF live] show ?thesis by simp
  qed
  with call show ?thesis by simp
qed

text \<open>
  The chain that awaits one operation, with a final handler that throws when
  \<open>dispatch\<close> runs it: the exception surfaces from the handler of the operation.
\<close>

theorem await_handler_rethrows_pending_witness:
  "fst (snd (await_handler_call (chain_resume operation_awaitable (Some (Exception 9)))
        (Args_value 42) \<lparr>task_ex = 3, task_awaiter = Some 0, handler_awaitee = Some 1\<rparr>
        (chain_started operation_awaitable (Some (Exception 9))))) = Some (Exception 9)
   \<and> awaiters (snd (snd (await_handler_call
        (chain_resume operation_awaitable (Some (Exception 9)))
        (Args_value 42) \<lparr>task_ex = 3, task_awaiter = Some 0, handler_awaitee = Some 1\<rparr>
        (chain_started operation_awaitable (Some (Exception 9)))))) 0 = None"
proof -
  let ?h = "\<lparr>task_ex = 3, task_awaiter = Some 0, handler_awaitee = Some 1\<rparr>"
  let ?fr = "\<lparr>promise = \<lparr>ref_count = 1, pending_exception = Some (Exception 9)\<rparr>,
               point = Sep_final_suspend, done_flag = True\<rparr>"
  have held: "task_awaiter ?h = Some 0"
    by simp
  have live: "awaiters (await_handler_wake (chain_resume operation_awaitable (Some (Exception 9)))
      (handler_awaitee ?h)
      (await_handler_store (Args_value 42) (handler_awaitee ?h)
         (chain_started operation_awaitable (Some (Exception 9))))) 0 = Some ?fr"
    by (simp del: One_nat_def add: chain_woken_value)
  have gone: "awaiters (snd (snd (await_handler_call
        (chain_resume operation_awaitable (Some (Exception 9)))
        (Args_value 42) ?h (chain_started operation_awaitable (Some (Exception 9)))))) 0 = None"
    by (simp del: One_nat_def add: await_handler_call_live [OF held live] chain_woken_value
        awaiter_release_def release_unfold destroy_awaiter_frame_def emit_def)
  from await_handler_rethrows_pending [OF held live] gone show ?thesis
    by simp
qed

subsection \<open>Releasing the awaiter\<close>

text \<open>
  C3, as the claim states it: bringing the count to zero would never destroy the frame in
  the call of \<open>release\<close>. After \<open>spawn\<close> the one reference is that of the posted
  \<open>spawn_handler\<close>; releasing it destroys the frame at once and posts nothing.
\<close>

theorem release_destroys_inline_counterexample:
  "awaiters (spawn (chain_args operation_awaitable None) world_init) 0
     = Some \<lparr>promise = \<lparr>ref_count = 1, pending_exception = None\<rparr>,
             point = Sep_context_await, done_flag = False\<rparr>
   \<and> awaiters (awaiter_release 0 (spawn (chain_args operation_awaitable None) world_init)) 0 = None
   \<and> trace (awaiter_release 0 (spawn (chain_args operation_awaitable None) world_init))
       = [Posted (Post_spawn_handler \<lparr>task_ex = 3, task_awaiter = Some 0\<rparr>),
          Destroyed (Awaiter_frame 0)]"
  unfolding spawn_world_init
  by (simp add: awaiter_release_def release_unfold destroy_awaiter_frame_def emit_def)

text \<open>
  C3, amended. \<open>release\<close> never posts anything. It destroys the frame in the call
  that brings the count to zero, and otherwise only decrements the count. The deferral is
  in the destructor of \<open>awaiter_task\<close>: a handler that is destroyed while it still
  holds its reference posts a \<open>destroy_awaiter\<close> that carries the reference to the
  handler's executor and leaves the count alone; running that action is the release.
\<close>

theorem release_destroys_inline_dtor_defers:
  assumes live: "awaiters s p = Some fr"
  shows "posted_actions (trace (awaiter_release p s)) = posted_actions (trace s)
     \<and> (ref_count (promise fr) = 1 \<longrightarrow>
          awaiters (awaiter_release p s) = (awaiters s)(p := None)
          \<and> last (trace (awaiter_release p s)) = Destroyed (Awaiter_frame p))
     \<and> (ref_count (promise fr) \<noteq> 1 \<longrightarrow>
          awaiter_release p s =
            s\<lparr>awaiters := (awaiters s)(p \<mapsto>
                 fr\<lparr>promise := (promise fr)\<lparr>ref_count := ref_count (promise fr) - 1\<rparr>\<rparr>)\<rparr>)
     \<and> (task_awaiter t = Some p \<longrightarrow>
          awaiter_task_dtor t s =
            emit (Posted (Post_destroy_awaiter
                    \<lparr>destroy_ex = task_ex t, destroy_awaiter_ptr = Some p\<rparr>)) s
          \<and> awaiters (awaiter_task_dtor t s) = awaiters s)
     \<and> snd (destroy_awaiter_call \<lparr>destroy_ex = x, destroy_awaiter_ptr = Some p\<rparr> s)
         = awaiter_release p s"
  using awaiter_release_last [OF live] awaiter_release_not_last [OF live]
  by (simp add: awaiter_task_dtor_def emit_def destroy_awaiter_call_def awaiter_delete_def)

theorem release_destroys_inline_dtor_defers_witness:
  "awaiters (awaiter_release 0 (spawn (chain_args operation_awaitable None) world_init)) = Map.empty
   \<and> last (trace (awaiter_release 0 (spawn (chain_args operation_awaitable None) world_init)))
       = Destroyed (Awaiter_frame 0)
   \<and> awaiters (awaiter_release 0 (awaiter_add_ref 0 (spawn (chain_args operation_awaitable None) world_init))) 0
       = Some \<lparr>promise = \<lparr>ref_count = 1, pending_exception = None\<rparr>,
             point = Sep_context_await, done_flag = False\<rparr>
   \<and> trace (awaiter_task_dtor \<lparr>task_ex = 3, task_awaiter = Some 0\<rparr>
               (spawn (chain_args operation_awaitable None) world_init))
       = [Posted (Post_spawn_handler \<lparr>task_ex = 3, task_awaiter = Some 0\<rparr>),
          Posted (Post_destroy_awaiter \<lparr>destroy_ex = 3, destroy_awaiter_ptr = Some 0\<rparr>)]
   \<and> awaiters (awaiter_task_dtor \<lparr>task_ex = 3, task_awaiter = Some 0\<rparr>
               (spawn (chain_args operation_awaitable None) world_init)) 0
       = Some \<lparr>promise = \<lparr>ref_count = 1, pending_exception = None\<rparr>,
             point = Sep_context_await, done_flag = False\<rparr>"
proof -
  let ?w = "spawn (chain_args operation_awaitable None) world_init"
  let ?fr = "\<lparr>promise = \<lparr>ref_count = 1, pending_exception = None\<rparr>,
               point = Sep_context_await, done_flag = False\<rparr>"
  let ?fr2 = "\<lparr>promise = \<lparr>ref_count = 2, pending_exception = None\<rparr>,
               point = Sep_context_await, done_flag = False\<rparr>"
  have l1: "awaiters ?w 0 = Some ?fr"
    by (simp add: spawn_world_init)
  have l2: "awaiters (awaiter_add_ref 0 ?w) 0 = Some ?fr2"
    by (simp add: spawn_world_init awaiter_add_ref_def add_ref_def)
  from release_destroys_inline_dtor_defers [OF l1, of "\<lparr>task_ex = 3, task_awaiter = Some 0\<rparr>" 3]
    release_destroys_inline_dtor_defers [OF l2, of "\<lparr>task_ex = 3, task_awaiter = Some 0\<rparr>" 3]
  show ?thesis
    by (simp add: spawn_world_init emit_def awaiter_add_ref_def add_ref_def)
qed

text \<open>
  C8. A handler acquires one reference when it is constructed, and moving it hands the
  reference to the new object, leaving the old one with nothing to release. When the
  handler is invoked, \<open>operator()\<close> takes the reference out of it and releases it
  once: the count of the \<open>awaiter\<close> has dropped by one (and the frame is gone when
  that was the last reference), nothing is posted, and the handler's destructor then
  does nothing. When the handler is destroyed without having been invoked, its
  destructor leaves the count alone and posts one \<open>destroy_awaiter\<close>, which
  releases once when it is run, or when it is destroyed without having run. The
  \<open>awaiter\<close> is assumed alive when \<open>wake_caller\<close> returns, which the handler's own
  reference ensures in a run that balances acquire and release.
\<close>

theorem await_handler_releases_once:
  assumes held: "task_awaiter h = Some p"
    and live: "awaiters (await_handler_wake resume (handler_awaitee h)
                 (await_handler_store args (handler_awaitee h) s)) p = Some fr"
  shows "await_handler_base_ctor e p w
           = (\<lparr>task_ex = e, task_awaiter = Some p, handler_awaitee = None\<rparr>, awaiter_add_ref p w)
     \<and> task_awaiter (fst (await_handler_call resume args h s)) = None
     \<and> awaiters (snd (snd (await_handler_call resume args h s))) p
         = (if ref_count (promise fr) = 1 then None
            else Some (fr\<lparr>promise := \<lparr>ref_count = ref_count (promise fr) - 1,
                                      pending_exception = None\<rparr>\<rparr>))
     \<and> posted_actions (trace (snd (snd (await_handler_call resume args h s))))
         = posted_actions (trace (await_handler_wake resume (handler_awaitee h)
                 (await_handler_store args (handler_awaitee h) s)))
     \<and> awaiter_task_dtor (fst (await_handler_call resume args h s)) w = w
     \<and> task_awaiter (fst (awaiter_task_move h)) = Some p
     \<and> awaiter_task_dtor (snd (awaiter_task_move h)) w = w
     \<and> awaiter_task_dtor h w
         = emit (Posted (Post_destroy_awaiter
                   \<lparr>destroy_ex = task_ex h, destroy_awaiter_ptr = Some p\<rparr>)) w
     \<and> awaiters (awaiter_task_dtor h w) = awaiters w
     \<and> destroy_awaiter_call \<lparr>destroy_ex = task_ex h, destroy_awaiter_ptr = Some p\<rparr> w
         = (\<lparr>destroy_ex = task_ex h, destroy_awaiter_ptr = None\<rparr>, awaiter_release p w)
     \<and> destroy_awaiter_dtor \<lparr>destroy_ex = task_ex h, destroy_awaiter_ptr = None\<rparr> w = w
     \<and> destroy_awaiter_dtor \<lparr>destroy_ex = task_ex h, destroy_awaiter_ptr = Some p\<rparr> w
         = awaiter_release p w"
proof -
  let ?s2 = "await_handler_wake resume (handler_awaitee h)
               (await_handler_store args (handler_awaitee h) s)"
  let ?fr3 = "fr\<lparr>promise := (promise fr)\<lparr>pending_exception := None\<rparr>\<rparr>"
  let ?s3 = "?s2\<lparr>awaiters := (awaiters ?s2)(p \<mapsto> ?fr3)\<rparr>"
  have call: "await_handler_call resume args h s
                = (h\<lparr>task_awaiter := None\<rparr>, pending_exception (promise fr), awaiter_release p ?s3)"
    using held live by (rule await_handler_call_live)
  have live3: "awaiters ?s3 p = Some ?fr3"
    by simp
  have count: "awaiters (awaiter_release p ?s3) p
         = (if ref_count (promise fr) = 1 then None
            else Some (fr\<lparr>promise := \<lparr>ref_count = ref_count (promise fr) - 1,
                                      pending_exception = None\<rparr>\<rparr>))"
  proof (cases "ref_count (promise fr) = 1")
    case True
    with awaiter_release_last [OF live3] show ?thesis by simp
  next
    case False
    with awaiter_release_not_last [OF live3] show ?thesis by simp
  qed
  have posted: "posted_actions (trace (awaiter_release p ?s3)) = posted_actions (trace ?s2)"
    by simp
  show ?thesis
    using held count posted
    by (simp add: call await_handler_base_ctor_def awaiter_task_dtor_def destroy_awaiter_call_def
        destroy_awaiter_dtor_def awaiter_delete_def emit_def awaiter_task_move_def)
qed

theorem await_handler_releases_once_witness:
  "task_awaiter (fst (await_handler_call (chain_resume operation_awaitable None) (Args_value 42)
        \<lparr>task_ex = 3, task_awaiter = Some 0, handler_awaitee = Some 1\<rparr>
        (chain_started operation_awaitable None))) = None
   \<and> awaiters (snd (snd (await_handler_call (chain_resume operation_awaitable None) (Args_value 42)
        \<lparr>task_ex = 3, task_awaiter = Some 0, handler_awaitee = Some 1\<rparr>
        (chain_started operation_awaitable None)))) 0 = None
   \<and> posted_actions (trace (snd (snd (await_handler_call (chain_resume operation_awaitable None)
        (Args_value 42) \<lparr>task_ex = 3, task_awaiter = Some 0, handler_awaitee = Some 1\<rparr>
        (chain_started operation_awaitable None)))))
       = [Post_spawn_handler \<lparr>task_ex = 3, task_awaiter = Some 0\<rparr>]
   \<and> posted_actions (trace (awaiter_task_dtor
        \<lparr>task_ex = 3, task_awaiter = Some 0, handler_awaitee = Some 1\<rparr>
        (chain_started operation_awaitable None)))
       = [Post_spawn_handler \<lparr>task_ex = 3, task_awaiter = Some 0\<rparr>,
          Post_destroy_awaiter \<lparr>destroy_ex = 3, destroy_awaiter_ptr = Some 0\<rparr>]
   \<and> awaiters (awaiter_task_dtor
        \<lparr>task_ex = 3, task_awaiter = Some 0, handler_awaitee = Some 1\<rparr>
        (chain_started operation_awaitable None)) 0
       = Some \<lparr>promise = \<lparr>ref_count = 1, pending_exception = None\<rparr>,
               point = Sep_function_await 1, done_flag = False\<rparr>"
proof -
  let ?h = "\<lparr>task_ex = 3, task_awaiter = Some 0, handler_awaitee = Some 1\<rparr>"
  let ?fr = "\<lparr>promise = \<lparr>ref_count = 1, pending_exception = None\<rparr>,
               point = Sep_final_suspend, done_flag = True\<rparr>"
  have held: "task_awaiter ?h = Some 0"
    by simp
  have live: "awaiters (await_handler_wake (chain_resume operation_awaitable None)
      (handler_awaitee ?h)
      (await_handler_store (Args_value 42) (handler_awaitee ?h)
         (chain_started operation_awaitable None))) 0 = Some ?fr"
    by (simp del: One_nat_def add: chain_woken_value)
  have tr: "trace (chain_started operation_awaitable None)
              = [Posted (Post_spawn_handler \<lparr>task_ex = 3, task_awaiter = Some 0\<rparr>)]"
    by (simp add: chain_started_operation)
  have aw: "awaiters (chain_started operation_awaitable None) 0
              = Some \<lparr>promise = \<lparr>ref_count = 1, pending_exception = None\<rparr>,
                      point = Sep_function_await 1, done_flag = False\<rparr>"
    by (simp add: chain_started_operation)
  from await_handler_releases_once [OF held live, of 3 "chain_started operation_awaitable None"]
  show ?thesis
    by (simp del: One_nat_def add: chain_woken_value emit_def tr aw)
qed

subsection \<open>The final handler\<close>

text \<open>
  C1. A chain whose user function is a coroutine that returns its value without
  suspending: \<open>await_ready\<close> is false although the value is there, so
  \<open>spawn_entry_point\<close> suspends with nobody left to resume it; the \<open>spawn_handler\<close>
  then drops the last reference and the frames are destroyed. The final handler is never
  dispatched.
\<close>

theorem spawn_returning_at_once_never_delivers:
  "trace (chain_started (coroutine_returning v) d)
     = [Posted (Post_spawn_handler \<lparr>task_ex = 3, task_awaiter = Some 0\<rparr>),
        Destroyed (Awaitee_frame 1), Destroyed (Awaiter_frame 0)]
   \<and> dispatched (trace (chain_started (coroutine_returning v) d)) = []
   \<and> awaiters (chain_started (coroutine_returning v) d) 0 = None
   \<and> undetermined (chain_started (coroutine_returning v) d) = False"
  by (simp add: chain_started_returning)

text \<open>
  C2. When the user function fails before it has produced a value, the final handler is
  dispatched exactly once, on the executor of the work guard, with the exception and
  \<open>T()\<close>. The failure reaches \<open>spawn_entry_point\<close> in one of three ways: it is
  resumed while it awaits the awaitable and finds the exception recorded there; the
  awaitable it gets from the call is ready at once, with the exception recorded; or the
  call itself throws. \<open>s1\<close> is the store in which the user function has been called.
\<close>

theorem spawn_entry_point_reports_failure:
  assumes frame: "awaiters s p = Some fr"
    and raised:
      "(point fr = Sep_function_await q \<and> s1 = s
          \<and> awaitees s q = Some c \<and> awaitee_pending_exception c = Some e)
       \<or> (point fr = Sep_context_await \<and> user_function A (spawn_ex A) p s = (Inr q, s1)
          \<and> awaitees s1 q = Some c \<and> ready c \<and> awaitee_pending_exception c = Some e)
       \<or> (point fr = Sep_context_await \<and> user_function A (spawn_ex A) p s = (Inl e, s1))"
    and undone: "awaiters s1 p = Some fr1" "\<not> done_flag fr1"
  shows "dispatched (trace (spawn_entry_point_resume A p s))
           = dispatched (trace s1) @ [(work_guard A, Some e, default_value A)]"
proof -
  consider
    (resumed) "point fr = Sep_function_await q" "s1 = s"
      "awaitees s q = Some c" "awaitee_pending_exception c = Some e"
  | (at_once) "point fr = Sep_context_await" "user_function A (spawn_ex A) p s = (Inr q, s1)"
      "awaitees s1 q = Some c" "ready c" "awaitee_pending_exception c = Some e"
  | (call) "point fr = Sep_context_await" "user_function A (spawn_ex A) p s = (Inl e, s1)"
    using raised by blast
  then show ?thesis
  proof cases
    case resumed
    have "spawn_entry_point_resume A p s = sep_after_await A p q s"
      using frame resumed(1) by (simp add: spawn_entry_point_resume_def)
    then show ?thesis
      using sep_after_await_failure [OF undone, of q c e A] resumed by simp
  next
    case at_once
    have "spawn_entry_point_resume A p s = sep_after_await A p q s1"
      using frame at_once(1-4)
      by (simp add: spawn_entry_point_resume_def awaitable_await_ready_def)
    then show ?thesis
      using sep_after_await_failure [OF undone at_once(3) at_once(5), of A] by simp
  next
    case call
    have "spawn_entry_point_resume A p s = sep_finish p (sep_catch A p e s1)"
      using frame call by (simp add: spawn_entry_point_resume_def)
    then show ?thesis
      using sep_catch_not_done [OF undone, of A e] by (simp add: emit_def)
  qed
qed

theorem spawn_entry_point_reports_failure_witness:
  "dispatched (trace (spawn_entry_point_resume (chain_args operation_awaitable None) 0
       (await_handler_store (Args_ec_value 5 42) (Some 1)
          (chain_started operation_awaitable None))))
     = [(7, Some (System_error 5), 0)]
   \<and> dispatched (trace (spawn_entry_point_resume
       (chain_args (coroutine_throwing (Exception 5)) None) 0
       (spawn (chain_args (coroutine_throwing (Exception 5)) None) world_init)))
     = [(7, Some (Exception 5), 0)]
   \<and> dispatched (trace (spawn_entry_point_resume
       (chain_args (function_throwing (Exception 4)) None) 0
       (spawn (chain_args (function_throwing (Exception 4)) None) world_init)))
     = [(7, Some (Exception 4), 0)]"
proof -
  let ?A = "chain_args operation_awaitable None"
  let ?s = "await_handler_store (Args_ec_value 5 42) (Some 1)
              (chain_started operation_awaitable None)"
  let ?fr = "\<lparr>promise = \<lparr>ref_count = 1, pending_exception = None\<rparr>,
               point = Sep_function_await 1, done_flag = False\<rparr>"
  let ?c = "(awaitee_init :: int awaitee)\<lparr>caller := Some (Awaiter_frame 0),
               awaitee_pending_exception := Some (System_error 5), ready_flag := True\<rparr>"
  have s: "?s = \<lparr>awaiters = [0 \<mapsto> ?fr], awaitees = [1 \<mapsto> ?c], next_addr = 2,
      trace = [Posted (Post_spawn_handler \<lparr>task_ex = 3, task_awaiter = Some 0\<rparr>)],
      undetermined = False\<rparr>"
    unfolding chain_started_operation
    by (simp add: await_handler_store_def await_handler_write_def awaitee_set_exception_def
        error_code_bool_def awaitee_init_def)
  have frame: "awaiters ?s 0 = Some ?fr"
    unfolding s by simp
  have raised: "(point ?fr = Sep_function_await 1 \<and> ?s = ?s
          \<and> awaitees ?s 1 = Some ?c \<and> awaitee_pending_exception ?c = Some (System_error 5))
       \<or> (point ?fr = Sep_context_await \<and> user_function ?A (spawn_ex ?A) 0 ?s = (Inr 1, ?s)
          \<and> awaitees ?s 1 = Some ?c \<and> ready ?c
          \<and> awaitee_pending_exception ?c = Some (System_error 5))
       \<or> (point ?fr = Sep_context_await
          \<and> user_function ?A (spawn_ex ?A) 0 ?s = (Inl (System_error 5), ?s))"
    unfolding s by simp
  have undone: "\<not> done_flag ?fr"
    by simp
  have tr: "dispatched (trace ?s) = []"
    unfolding s by simp
  note first = spawn_entry_point_reports_failure [OF frame raised frame undone]

  let ?B = "chain_args (coroutine_throwing (Exception 5)) None"
  let ?t = "spawn ?B world_init"
  let ?t1 = "snd (coroutine_throwing (Exception 5) 3 0 ?t)"
  let ?gr = "\<lparr>promise = \<lparr>ref_count = 1, pending_exception = None\<rparr>,
               point = Sep_context_await, done_flag = False\<rparr>"
  let ?d = "awaitee_unhandled_exception (Exception 5) (awaitee_init :: int awaitee)"
  have t1: "?t1 = \<lparr>awaiters = [0 \<mapsto> ?gr], awaitees = [1 \<mapsto> ?d], next_addr = 2,
      trace = [Posted (Post_spawn_handler \<lparr>task_ex = 3, task_awaiter = Some 0\<rparr>)],
      undetermined = False\<rparr>"
    unfolding spawn_world_init
    by (simp add: coroutine_throwing_def wake_caller_def awaitee_unhandled_exception_def
        awaitee_init_def Let_def)
  have frame2: "awaiters ?t 0 = Some ?gr"
    unfolding spawn_world_init by simp
  have frame2': "awaiters ?t1 0 = Some ?gr"
    unfolding t1 by simp
  have call2: "user_function ?B (spawn_ex ?B) 0 ?t = (Inr 1, ?t1)"
    unfolding spawn_world_init
    by (simp add: chain_args_def coroutine_throwing_def Let_def)
  have raised2: "(point ?gr = Sep_function_await 1 \<and> ?t1 = ?t
          \<and> awaitees ?t 1 = Some ?d \<and> awaitee_pending_exception ?d = Some (Exception 5))
       \<or> (point ?gr = Sep_context_await \<and> user_function ?B (spawn_ex ?B) 0 ?t = (Inr 1, ?t1)
          \<and> awaitees ?t1 1 = Some ?d \<and> ready ?d
          \<and> awaitee_pending_exception ?d = Some (Exception 5))
       \<or> (point ?gr = Sep_context_await
          \<and> user_function ?B (spawn_ex ?B) 0 ?t = (Inl (Exception 5), ?t1))"
    using call2 t1 by (simp add: awaitee_unhandled_exception_def ready_def)
  have undone2: "\<not> done_flag ?gr"
    by simp
  have tr2: "dispatched (trace ?t1) = []"
    unfolding t1 by simp
  note second = spawn_entry_point_reports_failure [OF frame2 raised2 frame2' undone2]

  let ?C = "chain_args (function_throwing (Exception 4)) None"
  let ?u = "spawn ?C world_init"
  have frame3: "awaiters ?u 0 = Some ?gr"
    unfolding spawn_world_init by simp
  have raised3: "(point ?gr = Sep_function_await 1 \<and> ?u = ?u
          \<and> awaitees ?u 1 = Some ?d \<and> awaitee_pending_exception ?d = Some (Exception 4))
       \<or> (point ?gr = Sep_context_await \<and> user_function ?C (spawn_ex ?C) 0 ?u = (Inr 1, ?u)
          \<and> awaitees ?u 1 = Some ?d \<and> ready ?d
          \<and> awaitee_pending_exception ?d = Some (Exception 4))
       \<or> (point ?gr = Sep_context_await
          \<and> user_function ?C (spawn_ex ?C) 0 ?u = (Inl (Exception 4), ?u))"
    by (simp add: chain_args_def function_throwing_def)
  have tr3: "dispatched (trace ?u) = []"
    unfolding spawn_world_init by simp
  note third = spawn_entry_point_reports_failure [OF frame3 raised3 frame3 undone2]

  from first second third tr tr2 tr3 show ?thesis
    by (simp add: chain_args_def)
qed

text \<open>
  C4. Once \<open>done\<close> is set, the \<open>catch\<close> block dispatches nothing and rethrows. After
  \<open>done = true\<close> the only statement left in the \<open>try\<close> block is the call of
  \<open>dispatch\<close> with the value; when an exception leaves it, the handler has been
  dispatched once, with the value, and the exception leaves the coroutine body, where the
  promise records it.
\<close>

theorem spawn_entry_point_failure_after_done:
  assumes frame: "awaiters s p = Some fr"
  shows "(done_flag fr \<longrightarrow> sep_catch A p e s = (Some e, s))
     \<and> (point fr = Sep_function_await q \<longrightarrow> awaitees s q = Some c \<longrightarrow>
        awaitee_pending_exception c = None \<longrightarrow> buf c = Holds v \<longrightarrow>
        dispatch_throws A (work_guard A) None v = Some e \<longrightarrow>
          dispatched (trace (spawn_entry_point_resume A p s))
            = dispatched (trace s) @ [(work_guard A, None, v)]
          \<and> awaiters (spawn_entry_point_resume A p s) p
            = Some (fr\<lparr>promise := awaiter_unhandled_exception e (promise fr),
                       point := Sep_final_suspend, done_flag := True\<rparr>))"
proof -
  have "sep_catch A p e s = (Some e, s)" if "done_flag fr"
    using frame that by (rule sep_catch_done)
  moreover have "dispatched (trace (spawn_entry_point_resume A p s))
            = dispatched (trace s) @ [(work_guard A, None, v)]
          \<and> awaiters (spawn_entry_point_resume A p s) p
            = Some (fr\<lparr>promise := awaiter_unhandled_exception e (promise fr),
                       point := Sep_final_suspend, done_flag := True\<rparr>)"
    if "point fr = Sep_function_await q" "awaitees s q = Some c"
      "awaitee_pending_exception c = None" "buf c = Holds v"
      "dispatch_throws A (work_guard A) None v = Some e"
  proof -
    have "spawn_entry_point_resume A p s = sep_after_await A p q s"
      using frame that(1) by (simp add: spawn_entry_point_resume_def)
    then show ?thesis
      using sep_after_await_value [OF frame that(2-4), of A] that(5) by simp
  qed
  ultimately show ?thesis by blast
qed

theorem spawn_entry_point_failure_after_done_witness:
  "dispatched (trace (spawn_entry_point_resume (chain_args operation_awaitable (Some (Exception 9))) 0
       (await_handler_store (Args_value 42) (Some 1)
          (chain_started operation_awaitable (Some (Exception 9))))))
     = [(7, None, 42)]
   \<and> awaiters (spawn_entry_point_resume (chain_args operation_awaitable (Some (Exception 9))) 0
       (await_handler_store (Args_value 42) (Some 1)
          (chain_started operation_awaitable (Some (Exception 9))))) 0
     = Some \<lparr>promise = \<lparr>ref_count = 1, pending_exception = Some (Exception 9)\<rparr>,
             point = Sep_final_suspend, done_flag = True\<rparr>
   \<and> sep_catch (chain_args operation_awaitable None) 0 (Exception 9)
       (await_handler_wake (chain_resume operation_awaitable None) (Some 1)
          (await_handler_store (Args_value 42) (Some 1) (chain_started operation_awaitable None)))
     = (Some (Exception 9),
        await_handler_wake (chain_resume operation_awaitable None) (Some 1)
          (await_handler_store (Args_value 42) (Some 1) (chain_started operation_awaitable None)))"
proof -
  let ?A = "chain_args operation_awaitable (Some (Exception 9))"
  let ?s = "await_handler_store (Args_value 42) (Some 1)
              (chain_started operation_awaitable (Some (Exception 9)))"
  let ?fr = "\<lparr>promise = \<lparr>ref_count = 1, pending_exception = None\<rparr>,
               point = Sep_function_await 1, done_flag = False\<rparr>"
  let ?c = "(awaitee_init :: int awaitee)\<lparr>caller := Some (Awaiter_frame 0),
               buf := Holds 42, initialised := True\<rparr>"
  have s: "?s = \<lparr>awaiters = [0 \<mapsto> ?fr], awaitees = [1 \<mapsto> ?c], next_addr = 2,
      trace = [Posted (Post_spawn_handler \<lparr>task_ex = 3, task_awaiter = Some 0\<rparr>)],
      undetermined = False\<rparr>"
    unfolding chain_started_operation
    by (simp add: await_handler_store_def await_handler_write_def return_value_def
        awaitee_init_def)
  have frame: "awaiters ?s 0 = Some ?fr"
    unfolding s by simp
  have target: "awaitees ?s 1 = Some ?c"
    unfolding s by simp
  have tr: "dispatched (trace ?s) = []"
    unfolding s by simp
  have throws: "dispatch_throws ?A (work_guard ?A) None 42 = Some (Exception 9)"
    by (simp add: chain_args_def)
  let ?w = "await_handler_wake (chain_resume operation_awaitable None) (Some 1)
          (await_handler_store (Args_value 42) (Some 1) (chain_started operation_awaitable None))"
  let ?gr = "\<lparr>promise = \<lparr>ref_count = 1, pending_exception = None\<rparr>,
               point = Sep_final_suspend, done_flag = True\<rparr>"
  have frame2: "awaiters ?w 0 = Some ?gr"
    unfolding chain_woken_value by simp
  from spawn_entry_point_failure_after_done [OF frame, of ?A "Exception 9" 1 ?c 42]
    spawn_entry_point_failure_after_done [OF frame2, of "chain_args operation_awaitable None"
      "Exception 9"]
    target tr throws
  show ?thesis
    by (simp add: awaitee_init_def awaiter_unhandled_exception_def chain_args_def)
qed

end
